theory Spec2Isabelle
  imports Complex_Main
begin

section \<open>Base On-Chain Pay: the wallet session workflow\<close>

text \<open>
  The repository holds two variants of one React component, \<open>BasePayMiniApp\<close>:
  \<^item> \<^verbatim>\<open>src/unnamed/part_000\<close>, which imports \<open>BrowserProvider\<close> and its helpers
    by name from ethers 6 (its comment: \<^verbatim>\<open>Updated for ethers v6\<close>) and has name
    resolution, a balance check and a fee suggestion;
  \<^item> \<^verbatim>\<open>src/unnamed/part_001\<close>, which uses \<open>ethers.providers.Web3Provider\<close> and
    \<open>ethers.utils\<close> of ethers 5.

  Both have the functions \<open>connectWallet\<close>, \<open>setupSigner\<close>, \<open>resetConnection\<close>,
  \<open>sendPayment\<close> and a handler of the wallet's \<open>accountsChanged\<close> event. The model
  keeps the names and marks the variant by the suffix \<open>_000\<close> or \<open>_001\<close>.

  The component's state is the record \<open>app_state\<close> of its nine \<open>useState\<close> cells. A
  function of the component reads the cells as its closure captured them when it was
  rendered and writes through the setters; so each model function reads from the state \<open>s\<close>
  it is given and returns the state with the setter calls applied in order.

  The wallet, the provider and the signer are outside the repository. Every call to them is
  answered by an oracle of the record \<open>env\<close>, which sees the calls made so far and answers
  with a promise's fate: \<open>Resolved\<close>, \<open>Rejected\<close> or \<open>Pending\<close> (never settled).
  Every call is written to the trace of \<open>event\<close>s together with its answer. The pure
  functions of the JavaScript runtime and of the ethers library that the code calls are
  the fields of the record \<open>lib\<close>. Console output and \<open>e.preventDefault()\<close> are not
  traced. The \<open>chainChanged\<close> handlers, \<open>shortAddress\<close> and the markup are left out.
\<close>

subsection \<open>Values of the runtime\<close>

text \<open>
  A thrown value: \<open>err_code\<close> is \<open>err.code\<close> when that is a number, \<open>err_message\<close>
  is \<open>err.message\<close> when that is a string (empty when absent), and \<open>err_string\<close> is
  \<open>String(err)\<close>. What is thrown is an object, as the errors of the wallet and of the
  library are, so that reading \<open>err.message\<close> in a \<open>catch\<close> block does not throw.
\<close>

datatype js_error = Error (err_code: "int option") (err_message: string) (err_string: string)

text \<open>\<open>err?.message || String(err)\<close>: the empty string is falsy.\<close>

definition err_text :: "js_error \<Rightarrow> string" where
  "err_text e = (if err_message e \<noteq> [] then err_message e else err_string e)"

datatype 'a outcome = Resolved 'a | Rejected js_error | Pending

text \<open>A JavaScript number, as far as \<open>isNaN\<close> and \<open>\<le> 0\<close> look at it.\<close>

datatype jsnum = NaN | NegInfinity | Finite rat | PosInfinity

definition isNaN :: "jsnum \<Rightarrow> bool" where
  "isNaN n = (n = NaN)"

text \<open>\<open>n <= 0\<close>; every comparison with \<open>NaN\<close> is false.\<close>

definition le_zero :: "jsnum \<Rightarrow> bool" where
  "le_zero n = (case n of NaN \<Rightarrow> False | NegInfinity \<Rightarrow> True | Finite r \<Rightarrow> r \<le> 0
     | PosInfinity \<Rightarrow> False)"

text \<open>
  The pure functions the component calls: \<open>Number\<close> and \<open>String.prototype.trim\<close> of the
  runtime; \<open>isAddress\<close>, \<open>parseEther\<close> (which throws on a malformed decimal string) and
  \<open>formatEther\<close> of ethers; \<open>hexValue\<close> of ethers 5 (\<open>ethers.utils.hexValue\<close>); the
  \<open>TypeError\<close> of a property read on \<open>null\<close>; and \<open>not_a_function\<close>, the engine's
  message when the expression named is called and is \<open>undefined\<close>. Amounts of wei are
  integers.
\<close>

record lib =
  Number :: "string \<Rightarrow> jsnum"
  trim :: "string \<Rightarrow> string"
  isAddress :: "string \<Rightarrow> bool"
  parseEther :: "string \<Rightarrow> js_error + int"
  formatEther :: "int \<Rightarrow> string"
  hexValue :: "int \<Rightarrow> string"
  null_read :: js_error
  not_a_function :: "string \<Rightarrow> string"

text \<open>A \<open>TypeError\<close> of the engine: it has a message and no \<open>code\<close>.\<close>

definition type_error :: "string \<Rightarrow> js_error" where
  "type_error m = Error None m (''TypeError: '' @ m)"

subsection \<open>What part\_000 meets in ethers 6\<close>

text \<open>
  In ethers 6 an amount of wei and a chain id are a \<open>bigint\<close>, where ethers 5 had
  \<open>BigNumber\<close> objects and numbers, and there is no export \<open>hexValue\<close>. Four lines of
  part\_000 are written as for ethers 5 and meet this:

  \<^item> line 215, \<open>balBN.lt(value)\<close>: a \<open>bigint\<close> has no member \<open>lt\<close>, so the call throws;
  \<^item> lines 127, 133 and 141, \<open>hexValue(BASE_CHAIN_ID)\<close>: the imported name is
    \<open>undefined\<close>, so the call throws;
  \<^item> line 123, \<open>net.chainId !== BASE_CHAIN_ID\<close>: a \<open>bigint\<close> and a number are never
    strictly equal, so the test is true;
  \<^item> lines 229 and 232, the tests of the fee fields: \<open>null\<close> and \<open>0n\<close> are falsy.
\<close>

definition lt_000 :: "lib \<Rightarrow> int \<Rightarrow> int \<Rightarrow> js_error + bool" where
  "lt_000 L balBN v = Inl (type_error (not_a_function L ''balBN.lt''))"

definition hexValue_000 :: "lib \<Rightarrow> int \<Rightarrow> js_error + string" where
  "hexValue_000 L n = Inl (type_error (not_a_function L ''hexValue''))"

definition strict_ne_000 :: "int \<Rightarrow> int \<Rightarrow> bool" where
  "strict_ne_000 c n = True"

definition truthy_000 :: "int option \<Rightarrow> bool" where
  "truthy_000 x = (case x of None \<Rightarrow> False | Some n \<Rightarrow> n \<noteq> 0)"

subsection \<open>The component's state and the objects it handles\<close>

datatype provider = InjectedProvider

datatype signer = Signer nat

datatype network = Network (net_name: string) (chainId: int)

record app_state =
  provider :: "provider option"
  signer :: "signer option"
  address :: string
  balance :: string
  network :: "network option"
  recipient :: string
  amount :: string
  status :: string
  sending :: bool

text \<open>The answer of \<open>provider.getFeeData()\<close>; an absent or \<open>null\<close> field is \<open>None\<close>.\<close>

record fee_data =
  maxFeePerGas :: "int option"
  maxPriorityFeePerGas :: "int option"
  gasPrice :: "int option"

text \<open>The transaction request \<open>tx\<close> that \<open>sendPayment\<close> builds.\<close>

record tx =
  tx_to :: string
  tx_value :: int
  tx_maxFeePerGas :: "int option"
  tx_maxPriorityFeePerGas :: "int option"
  tx_gasPrice :: "int option"

datatype tx_response = TxResponse (hash: string)

datatype receipt = Receipt (receipt_status: int) (blockNumber: nat)

text \<open>The parameter of a \<open>provider.send(method, [param])\<close> request.\<close>

datatype rpc_param =
    NoParam
  | ChainRef string
  | ChainSpec string string "string \<times> string \<times> nat" "string list" "string list"

datatype event =
    Send string rpc_param "unit outcome"
  | GetNetwork "network outcome"
  | GetSigner "signer outcome"
  | GetAddress signer "string outcome"
  | GetBalance string "int outcome"
  | ResolveName string "string option outcome"
  | GetFeeData "fee_data option outcome"
  | SendTransaction signer tx "tx_response outcome"
  | Wait tx_response nat "receipt option outcome"
  | SetSending bool

text \<open>
  The outside world. \<open>has_ethereum\<close> is whether \<open>window.ethereum\<close> exists; every other
  field answers one kind of call, given the trace so far. \<open>getSigner_sync\<close> is the
  synchronous \<open>getSigner()\<close> of \<open>Web3Provider\<close>.
\<close>

record env =
  has_ethereum :: bool
  send :: "event list \<Rightarrow> string \<Rightarrow> rpc_param \<Rightarrow> unit outcome"
  getNetwork :: "event list \<Rightarrow> network outcome"
  getSigner :: "event list \<Rightarrow> signer outcome"
  getSigner_sync :: "event list \<Rightarrow> js_error + signer"
  getAddress :: "event list \<Rightarrow> signer \<Rightarrow> string outcome"
  getBalance :: "event list \<Rightarrow> string \<Rightarrow> int outcome"
  resolveName :: "event list \<Rightarrow> string \<Rightarrow> string option outcome"
  getFeeData :: "event list \<Rightarrow> fee_data option outcome"
  sendTransaction :: "event list \<Rightarrow> signer \<Rightarrow> tx \<Rightarrow> tx_response outcome"
  wait :: "event list \<Rightarrow> tx_response \<Rightarrow> nat \<Rightarrow> receipt option outcome"

text \<open>
  How a block of code ends: it ran to its end or returned (\<open>Finished\<close>), it threw
  (\<open>Threw\<close>), or it is suspended for ever at an \<open>await\<close> (\<open>Stuck\<close>). A run is the
  state written so far, the trace and the completion.
\<close>

datatype completion = Finished | Threw js_error | Stuck

type_synonym run = "app_state \<times> event list \<times> completion"

subsection \<open>Status texts\<close>

text \<open>
  A \<open>string\<close> is a list of bytes; the two characters of the status texts outside ASCII
  are written as their UTF-8 bytes.
\<close>

definition ellipsis :: string where
  "ellipsis = [CHR 0xE2, CHR 0x80, CHR 0xA6]"

definition em_dash :: string where
  "em_dash = [CHR 0xE2, CHR 0x80, CHR 0x94]"

fun digits :: "nat \<Rightarrow> string" where
  "digits n = (if n < 10 then [char_of (48 + n)] else digits (n div 10) @ [char_of (48 + n mod 10)])"

declare digits.simps [simp del]

definition BASE_CHAIN_ID :: int where
  "BASE_CHAIN_ID = 8453"

definition msg_not_connected :: string where
  "msg_not_connected = ''Wallet not connected''"

definition msg_invalid_amount_000 :: string where
  "msg_invalid_amount_000 = ''Invalid amount (must be a number > 0)''"

definition msg_unresolved_000 :: string where
  "msg_unresolved_000 = ''Recipient is not a valid address or resolvable ENS name''"

definition msg_insufficient_000 :: string where
  "msg_insufficient_000 = ''Insufficient balance for the requested amount (does not include gas).''"

definition msg_preparing :: string where
  "msg_preparing = ''Preparing transaction'' @ ellipsis"

definition msg_sent_000 :: "tx_response \<Rightarrow> string" where
  "msg_sent_000 r = ''Transaction sent '' @ em_dash @ '' hash: '' @ hash r
     @ ''. Waiting for confirmation...''"

definition msg_confirmed :: "receipt \<Rightarrow> tx_response \<Rightarrow> string" where
  "msg_confirmed rc r = ''Payment confirmed in block '' @ digits (blockNumber rc)
     @ ''. Tx: '' @ hash r"

definition msg_failed :: string where
  "msg_failed = ''Transaction failed or reverted''"

definition msg_user_rejected_000 :: string where
  "msg_user_rejected_000 = ''User rejected the transaction''"

definition msg_send_failed :: "js_error \<Rightarrow> string" where
  "msg_send_failed e = ''Send failed: '' @ err_text e"

subsection \<open>\<open>sendPayment\<close> of part\_000\<close>

text \<open>
  Lines 229-234: the fee fields of the transaction. \<open>feeData?.x\<close> of a \<open>null\<close>
  \<open>feeData\<close> is \<open>undefined\<close>; a field counts when it is truthy.
\<close>

definition add_fees_000 :: "fee_data option \<Rightarrow> tx \<Rightarrow> tx" where
  "add_fees_000 fd t =
     (case fd of
        None \<Rightarrow> t
      | Some f \<Rightarrow>
          if truthy_000 (maxFeePerGas f) \<and> truthy_000 (maxPriorityFeePerGas f)
          then t\<lparr>tx_maxFeePerGas := maxFeePerGas f,
                 tx_maxPriorityFeePerGas := maxPriorityFeePerGas f\<rparr>
          else if truthy_000 (gasPrice f) then t\<lparr>tx_gasPrice := gasPrice f\<rparr>
          else t)"

text \<open>Lines 240-248: after \<open>response.wait(1)\<close> has resolved to \<open>rc\<close>.\<close>

definition receipt_000 ::
  "lib \<Rightarrow> env \<Rightarrow> app_state \<Rightarrow> app_state \<Rightarrow> event list \<Rightarrow> tx_response \<Rightarrow> receipt option \<Rightarrow> run"
where
  "receipt_000 L E s st tr resp rc =
     (case rc of
        None \<Rightarrow> (st\<lparr>status := msg_failed\<rparr>, tr, Finished)
      | Some r \<Rightarrow>
          if receipt_status r = 1 then
            (let st1 = st\<lparr>status := msg_confirmed r resp\<rparr>;
                 b = getBalance E tr (address s);
                 tr1 = tr @ [GetBalance (address s) b]
             in case b of
                  Resolved newBal \<Rightarrow>
                    (st1\<lparr>balance := formatEther L newBal, recipient := [], amount := []\<rparr>,
                     tr1, Finished)
                | Rejected e \<Rightarrow> (st1, tr1, Threw e)
                | Pending \<Rightarrow> (st1, tr1, Stuck))
          else (st\<lparr>status := msg_failed\<rparr>, tr, Finished))"

text \<open>Lines 224-239: build the transaction, broadcast it, wait for one confirmation.\<close>

definition broadcast_000 ::
  "lib \<Rightarrow> env \<Rightarrow> app_state \<Rightarrow> signer \<Rightarrow> app_state \<Rightarrow> event list \<Rightarrow> string \<Rightarrow> int
     \<Rightarrow> fee_data option \<Rightarrow> run"
where
  "broadcast_000 L E s sg st tr resolvedRecipient v feeData =
     (let t = add_fees_000 feeData
                \<lparr>tx_to = resolvedRecipient, tx_value = v, tx_maxFeePerGas = None,
                 tx_maxPriorityFeePerGas = None, tx_gasPrice = None\<rparr>;
          r = sendTransaction E tr sg t;
          tr1 = tr @ [SendTransaction sg t r]
      in case r of
           Rejected e \<Rightarrow> (st, tr1, Threw e)
         | Pending \<Rightarrow> (st, tr1, Stuck)
         | Resolved resp \<Rightarrow>
             (let st1 = st\<lparr>status := msg_sent_000 resp\<rparr>;
                  w = wait E tr1 resp 1;
                  tr2 = tr1 @ [Wait resp 1 w]
              in case w of
                   Rejected e \<Rightarrow> (st1, tr2, Threw e)
                 | Pending \<Rightarrow> (st1, tr2, Stuck)
                 | Resolved rc \<Rightarrow> receipt_000 L E s st1 tr2 resp rc))"

text \<open>
  Lines 213-223: parse the amount, read the live balance, compare, fetch the fee
  suggestion. The comparison is \<open>lt_000\<close>.
\<close>

definition pay_000 ::
  "lib \<Rightarrow> env \<Rightarrow> app_state \<Rightarrow> signer \<Rightarrow> event list \<Rightarrow> string \<Rightarrow> run"
where
  "pay_000 L E s sg tr resolvedRecipient =
     (case parseEther L (amount s) of
        Inl e \<Rightarrow> (s, tr, Threw e)
      | Inr v \<Rightarrow>
          (let b = getBalance E tr (address s);
               tr1 = tr @ [GetBalance (address s) b]
           in case b of
                Rejected e \<Rightarrow> (s, tr1, Threw e)
              | Pending \<Rightarrow> (s, tr1, Stuck)
              | Resolved balBN \<Rightarrow>
                  (case lt_000 L balBN v of
                     Inl e \<Rightarrow> (s, tr1, Threw e)
                   | Inr below \<Rightarrow>
                       if below then (s\<lparr>status := msg_insufficient_000\<rparr>, tr1, Finished)
                       else
                         (let st = s\<lparr>sending := True, status := msg_preparing\<rparr>;
                              tr2 = tr1 @ [SetSending True];
                              f = getFeeData E tr2;
                              tr3 = tr2 @ [GetFeeData f]
                          in case f of
                               Rejected e \<Rightarrow> (st, tr3, Threw e)
                             | Pending \<Rightarrow> (st, tr3, Stuck)
                             | Resolved feeData \<Rightarrow>
                                 broadcast_000 L E s sg st tr3 resolvedRecipient v feeData))))"

text \<open>Lines 202-211 and on: the body of the \<open>try\<close> block.\<close>

definition try_000 :: "lib \<Rightarrow> env \<Rightarrow> app_state \<Rightarrow> signer \<Rightarrow> run" where
  "try_000 L E s sg =
     (let resolvedRecipient = trim L (recipient s)
      in if \<not> isAddress L resolvedRecipient then
           (let m = resolveName E [] resolvedRecipient;
                tr = [ResolveName resolvedRecipient m]
            in case m of
                 Rejected e \<Rightarrow> (s, tr, Threw e)
               | Pending \<Rightarrow> (s, tr, Stuck)
               | Resolved maybeResolved \<Rightarrow>
                   (case maybeResolved of
                      None \<Rightarrow> (s\<lparr>status := msg_unresolved_000\<rparr>, tr, Finished)
                    | Some a \<Rightarrow>
                        if a = [] then (s\<lparr>status := msg_unresolved_000\<rparr>, tr, Finished)
                        else pay_000 L E s sg tr a))
         else pay_000 L E s sg [] resolvedRecipient)"

text \<open>Lines 249-255: the \<open>catch\<close> block.\<close>

definition catch_000 :: "run \<Rightarrow> run" where
  "catch_000 r =
     (case r of
        (st, tr, Threw e) \<Rightarrow>
          (st\<lparr>status := (if err_code e = Some 4001 then msg_user_rejected_000
                          else msg_send_failed e)\<rparr>, tr, Finished)
      | _ \<Rightarrow> r)"

text \<open>Lines 256-258: the \<open>finally\<close> block, which a suspended run never reaches.\<close>

definition finally_send :: "run \<Rightarrow> run" where
  "finally_send r =
     (case r of
        (st, tr, Stuck) \<Rightarrow> (st, tr, Stuck)
      | (st, tr, c) \<Rightarrow> (st\<lparr>sending := False\<rparr>, tr @ [SetSending False], c))"

definition sendPayment_000 :: "lib \<Rightarrow> env \<Rightarrow> app_state \<Rightarrow> run" where
  "sendPayment_000 L E s =
     (case provider s of
        None \<Rightarrow> (s\<lparr>status := msg_not_connected\<rparr>, [], Finished)
      | Some p \<Rightarrow>
          (case signer s of
             None \<Rightarrow> (s\<lparr>status := msg_not_connected\<rparr>, [], Finished)
           | Some sg \<Rightarrow>
               if amount s = [] \<or> isNaN (Number L (amount s)) \<or> le_zero (Number L (amount s))
               then (s\<lparr>status := msg_invalid_amount_000\<rparr>, [], Finished)
               else finally_send (catch_000 (try_000 L E s sg))))"

subsection \<open>\<open>sendPayment\<close> of part\_001\<close>

definition msg_invalid_recipient_001 :: string where
  "msg_invalid_recipient_001 = ''Invalid recipient address''"

definition msg_invalid_amount_001 :: string where
  "msg_invalid_amount_001 = ''Invalid amount''"

definition msg_sent_001 :: "tx_response \<Rightarrow> string" where
  "msg_sent_001 r = ''Transaction sent '' @ em_dash @ '' hash: '' @ hash r"

text \<open>
  Lines 164-173. Only \<open>signer\<close> was checked, so \<open>provider.getBalance\<close> is a property
  read on \<open>null\<close> when there is no provider.
\<close>

definition receipt_001 ::
  "lib \<Rightarrow> env \<Rightarrow> app_state \<Rightarrow> app_state \<Rightarrow> event list \<Rightarrow> tx_response \<Rightarrow> receipt option \<Rightarrow> run"
where
  "receipt_001 L E s st tr resp rc =
     (case rc of
        None \<Rightarrow> (st\<lparr>status := msg_failed\<rparr>, tr, Finished)
      | Some r \<Rightarrow>
          if receipt_status r = 1 then
            (let st1 = st\<lparr>status := msg_confirmed r resp\<rparr>
             in case provider s of
                  None \<Rightarrow> (st1, tr, Threw (null_read L))
                | Some p \<Rightarrow>
                    (let b = getBalance E tr (address s);
                         tr1 = tr @ [GetBalance (address s) b]
                     in case b of
                          Resolved bal \<Rightarrow>
                            (st1\<lparr>balance := formatEther L bal, recipient := [], amount := []\<rparr>,
                             tr1, Finished)
                        | Rejected e \<Rightarrow> (st1, tr1, Threw e)
                        | Pending \<Rightarrow> (st1, tr1, Stuck)))
          else (st\<lparr>status := msg_failed\<rparr>, tr, Finished))"

text \<open>Lines 147-173: the body of the second \<open>try\<close> block.\<close>

definition try_001 :: "lib \<Rightarrow> env \<Rightarrow> app_state \<Rightarrow> signer \<Rightarrow> int \<Rightarrow> run" where
  "try_001 L E s sg v =
     (let st = s\<lparr>sending := True, status := msg_preparing\<rparr>;
          tr = [SetSending True];
          t = \<lparr>tx_to = recipient s, tx_value = v, tx_maxFeePerGas = None,
               tx_maxPriorityFeePerGas = None, tx_gasPrice = None\<rparr>;
          r = sendTransaction E tr sg t;
          tr1 = tr @ [SendTransaction sg t r]
      in case r of
           Rejected e \<Rightarrow> (st, tr1, Threw e)
         | Pending \<Rightarrow> (st, tr1, Stuck)
         | Resolved resp \<Rightarrow>
             (let st1 = st\<lparr>status := msg_sent_001 resp\<rparr>;
                  w = wait E tr1 resp 1;
                  tr2 = tr1 @ [Wait resp 1 w]
              in case w of
                   Rejected e \<Rightarrow> (st1, tr2, Threw e)
                 | Pending \<Rightarrow> (st1, tr2, Stuck)
                 | Resolved rc \<Rightarrow> receipt_001 L E s st1 tr2 resp rc))"

text \<open>Lines 174-176: the \<open>catch\<close> block; it knows no error code.\<close>

definition catch_001 :: "run \<Rightarrow> run" where
  "catch_001 r =
     (case r of
        (st, tr, Threw e) \<Rightarrow> (st\<lparr>status := msg_send_failed e\<rparr>, tr, Finished)
      | _ \<Rightarrow> r)"

definition sendPayment_001 :: "lib \<Rightarrow> env \<Rightarrow> app_state \<Rightarrow> run" where
  "sendPayment_001 L E s =
     (case signer s of
        None \<Rightarrow> (s\<lparr>status := msg_not_connected\<rparr>, [], Finished)
      | Some sg \<Rightarrow>
          if \<not> isAddress L (recipient s)
          then (s\<lparr>status := msg_invalid_recipient_001\<rparr>, [], Finished)
          else
            (case parseEther L (if amount s = [] then ''0'' else amount s) of
               Inl e \<Rightarrow> (s\<lparr>status := msg_invalid_amount_001\<rparr>, [], Finished)
             | Inr v \<Rightarrow> finally_send (catch_001 (try_001 L E s sg v))))"

subsection \<open>\<open>setupSigner\<close> and \<open>resetConnection\<close>\<close>

definition msg_please_connect_000 :: string where
  "msg_please_connect_000 = ''Please connect wallet (approve account access).''"

text \<open>
  The four steps after the signer is known are the same in both variants
  (part\_000 lines 164-170, part\_001 lines 106-112).
\<close>

definition signer_steps :: "lib \<Rightarrow> env \<Rightarrow> app_state \<Rightarrow> event list \<Rightarrow> signer \<Rightarrow> run" where
  "signer_steps L E st tr sg =
     (let st1 = st\<lparr>signer := Some sg\<rparr>;
          a = getAddress E tr sg;
          tr1 = tr @ [GetAddress sg a]
      in case a of
           Rejected e \<Rightarrow> (st1, tr1, Threw e)
         | Pending \<Rightarrow> (st1, tr1, Stuck)
         | Resolved addr \<Rightarrow>
             (let st2 = st1\<lparr>address := addr\<rparr>;
                  b = getBalance E tr1 addr;
                  tr2 = tr1 @ [GetBalance addr b]
              in case b of
                   Rejected e \<Rightarrow> (st2, tr2, Threw e)
                 | Pending \<Rightarrow> (st2, tr2, Stuck)
                 | Resolved bal \<Rightarrow>
                     (let st3 = st2\<lparr>balance := formatEther L bal\<rparr>;
                          n = getNetwork E tr2;
                          tr3 = tr2 @ [GetNetwork n]
                      in case n of
                           Rejected e \<Rightarrow> (st3, tr3, Threw e)
                         | Pending \<Rightarrow> (st3, tr3, Stuck)
                         | Resolved net \<Rightarrow> (st3\<lparr>network := Some net\<rparr>, tr3, Finished))))"

text \<open>
  part\_000 lines 160-175. \<open>p.getSigner\<close> is a function, so the call is awaited. The
  \<open>catch\<close> block reads the \<open>address\<close> its closure captured, here \<open>captured\<close>.
\<close>

definition setupSigner_000 :: "lib \<Rightarrow> env \<Rightarrow> string \<Rightarrow> app_state \<Rightarrow> event list \<Rightarrow> run" where
  "setupSigner_000 L E captured st tr =
     (let g = getSigner E tr;
          tr1 = tr @ [GetSigner g];
          r = (case g of
                 Rejected e \<Rightarrow> (st, tr1, Threw e)
               | Pending \<Rightarrow> (st, tr1, Stuck)
               | Resolved sg \<Rightarrow> signer_steps L E st tr1 sg)
      in case r of
           (st', tr', Threw e) \<Rightarrow>
             (if captured = [] then st'\<lparr>status := msg_please_connect_000\<rparr> else st', tr', Finished)
         | _ \<Rightarrow> r)"

text \<open>part\_001 lines 103-116: \<open>getSigner\<close> is synchronous, the \<open>catch\<close> block only logs.\<close>

definition setupSigner_001 :: "lib \<Rightarrow> env \<Rightarrow> app_state \<Rightarrow> event list \<Rightarrow> run" where
  "setupSigner_001 L E st tr =
     (let r = (case getSigner_sync E tr of
                 Inl e \<Rightarrow> (st, tr @ [GetSigner (Rejected e)], Threw e)
               | Inr sg \<Rightarrow> signer_steps L E st (tr @ [GetSigner (Resolved sg)]) sg)
      in case r of
           (st', tr', Threw e) \<Rightarrow> (st', tr', Finished)
         | _ \<Rightarrow> r)"

text \<open>part\_000 lines 177-188.\<close>

definition resetConnection_000 :: "env \<Rightarrow> app_state \<Rightarrow> app_state" where
  "resetConnection_000 E st =
     (let st1 = st\<lparr>provider := None, signer := None, address := [], balance := ''0.0'',
                    network := None, status := []\<rparr>
      in if has_ethereum E then st1\<lparr>provider := Some InjectedProvider\<rparr> else st1)"

text \<open>part\_001 lines 118-125.\<close>

definition resetConnection_001 :: "app_state \<Rightarrow> app_state" where
  "resetConnection_001 st =
     st\<lparr>provider := None, signer := None, address := [], balance := ''0'',
        network := None, status := []\<rparr>"

subsection \<open>The \<open>accountsChanged\<close> handlers\<close>

text \<open>
  The argument is the event's account list, \<open>None\<close> for \<open>null\<close> or \<open>undefined\<close>. The
  handlers are created by the effect of the first render, whose \<open>address\<close> is the empty
  string; they act on the state \<open>st\<close> current when the event arrives.
\<close>

definition accountsChanged_000 :: "lib \<Rightarrow> env \<Rightarrow> app_state \<Rightarrow> string list option \<Rightarrow> run" where
  "accountsChanged_000 L E st accounts =
     (case accounts of
        None \<Rightarrow> (resetConnection_000 E st, [], Finished)
      | Some [] \<Rightarrow> (resetConnection_000 E st, [], Finished)
      | Some (a # _) \<Rightarrow> setupSigner_000 L E [] (st\<lparr>address := a\<rparr>) [])"

text \<open>
  part\_001 lines 32-39: \<open>accounts.length\<close> of \<open>null\<close> throws; \<open>setupSigner\<close> is
  started and not awaited, so the handler itself has finished whatever becomes of it.
\<close>

definition accountsChanged_001 :: "lib \<Rightarrow> env \<Rightarrow> app_state \<Rightarrow> string list option \<Rightarrow> run" where
  "accountsChanged_001 L E st accounts =
     (case accounts of
        None \<Rightarrow> (st, [], Threw (null_read L))
      | Some [] \<Rightarrow> (resetConnection_001 st, [], Finished)
      | Some (a # _) \<Rightarrow>
          (case setupSigner_001 L E (st\<lparr>address := a\<rparr>) [] of
             (st', tr', c) \<Rightarrow> (st', tr', Finished)))"

subsection \<open>\<open>connectWallet\<close>\<close>

definition msg_no_wallet :: string where
  "msg_no_wallet = ''No injected wallet found. Install MetaMask or Coinbase Wallet.''"

definition msg_requesting_000 :: string where
  "msg_requesting_000 = ''Requesting wallet connection'' @ ellipsis"

definition msg_connecting_001 :: string where
  "msg_connecting_001 = ''Connecting'' @ ellipsis"

definition msg_switching_000 :: "network \<Rightarrow> string" where
  "msg_switching_000 net = ''You'' @ [CHR 0x27] @ ''re on '' @ net_name net @ '' '' @ em_dash
     @ '' attempting to switch to Base...''"

definition msg_manual_000 :: string where
  "msg_manual_000 = ''Please switch your wallet to the Base network manually.''"

definition msg_connected :: string where
  "msg_connected = ''Connected''"

definition msg_connection_failed :: "js_error \<Rightarrow> string" where
  "msg_connection_failed e = ''Connection failed: '' @ err_text e"

text \<open>The parameter of \<open>wallet_switchEthereumChain\<close> as part\_001 builds it.\<close>

definition switch_request :: "lib \<Rightarrow> rpc_param" where
  "switch_request L = ChainRef (hexValue L BASE_CHAIN_ID)"

text \<open>
  The parameter of \<open>wallet_addEthereumChain\<close> as part\_001 builds it: chain id, chain
  name, native currency (name, symbol, decimals), RPC URLs, block-explorer URLs.
\<close>

definition add_request :: "lib \<Rightarrow> rpc_param" where
  "add_request L = ChainSpec (hexValue L BASE_CHAIN_ID) ''Base'' (''Ether'', ''ETH'', 18)
     [''https://mainnet.base.org''] [''https://basescan.org'']"

text \<open>
  part\_000 lines 126-128 (and again 140-142): the argument of the switch request is built
  with \<open>hexValue\<close> first, then the request is sent.
\<close>

definition switch_try_000 :: "lib \<Rightarrow> env \<Rightarrow> app_state \<Rightarrow> event list \<Rightarrow> run" where
  "switch_try_000 L E st tr =
     (case hexValue_000 L BASE_CHAIN_ID of
        Inl e \<Rightarrow> (st, tr, Threw e)
      | Inr h \<Rightarrow>
          (let sw = send E tr ''wallet_switchEthereumChain'' (ChainRef h);
               tr1 = tr @ [Send ''wallet_switchEthereumChain'' (ChainRef h) sw]
           in case sw of
                Resolved _ \<Rightarrow> (st, tr1, Finished)
              | Rejected e \<Rightarrow> (st, tr1, Threw e)
              | Pending \<Rightarrow> (st, tr1, Stuck)))"

text \<open>part\_000 lines 131-142, the inner \<open>try\<close> block: add the chain, then switch again.\<close>

definition add_try_000 :: "lib \<Rightarrow> env \<Rightarrow> app_state \<Rightarrow> event list \<Rightarrow> run" where
  "add_try_000 L E st tr =
     (case hexValue_000 L BASE_CHAIN_ID of
        Inl e \<Rightarrow> (st, tr, Threw e)
      | Inr h \<Rightarrow>
          (let p = ChainSpec h ''Base'' (''Ether'', ''ETH'', 18)
                     [''https://mainnet.base.org''] [''https://basescan.org''];
               ad = send E tr ''wallet_addEthereumChain'' p;
               tr1 = tr @ [Send ''wallet_addEthereumChain'' p ad]
           in case ad of
                Resolved _ \<Rightarrow> switch_try_000 L E st tr1
              | Rejected e \<Rightarrow> (st, tr1, Threw e)
              | Pending \<Rightarrow> (st, tr1, Stuck)))"

text \<open>
  part\_000 lines 125-147: what the first block throws is caught by the second, what the
  second throws is caught and answered with a status. Nothing is thrown further.
\<close>

definition switch_000 :: "lib \<Rightarrow> env \<Rightarrow> app_state \<Rightarrow> event list \<Rightarrow> run" where
  "switch_000 L E st tr =
     (case switch_try_000 L E st tr of
        (st1, tr1, Threw switchErr) \<Rightarrow>
          (case add_try_000 L E st1 tr1 of
             (st2, tr2, Threw addErr) \<Rightarrow> (st2\<lparr>status := msg_manual_000\<rparr>, tr2, Finished)
           | r \<Rightarrow> r)
      | r \<Rightarrow> r)"

text \<open>part\_000 lines 152-153.\<close>

definition finish_connect_000 :: "lib \<Rightarrow> env \<Rightarrow> app_state \<Rightarrow> app_state \<Rightarrow> event list \<Rightarrow> run" where
  "finish_connect_000 L E s st tr =
     (case setupSigner_000 L E (address s) st tr of
        (st1, tr1, Finished) \<Rightarrow> (st1\<lparr>status := msg_connected\<rparr>, tr1, Finished)
      | r \<Rightarrow> r)"

text \<open>part\_000 lines 148-153: read the network again, then set up the signer.\<close>

definition after_switch_000 :: "lib \<Rightarrow> env \<Rightarrow> app_state \<Rightarrow> app_state \<Rightarrow> event list \<Rightarrow> run" where
  "after_switch_000 L E s st tr =
     (let n = getNetwork E tr;
          tr1 = tr @ [GetNetwork n]
      in case n of
           Rejected e \<Rightarrow> (st, tr1, Threw e)
         | Pending \<Rightarrow> (st, tr1, Stuck)
         | Resolved newNet \<Rightarrow> finish_connect_000 L E s (st\<lparr>network := Some newNet\<rparr>) tr1)"

text \<open>part\_000 lines 117-153: the body of the outer \<open>try\<close> block.\<close>

definition connect_try_000 :: "lib \<Rightarrow> env \<Rightarrow> app_state \<Rightarrow> run" where
  "connect_try_000 L E s =
     (let st = s\<lparr>status := msg_requesting_000\<rparr>;
          a = send E [] ''eth_requestAccounts'' NoParam;
          tr1 = [Send ''eth_requestAccounts'' NoParam a]
      in case a of
           Rejected e \<Rightarrow> (st, tr1, Threw e)
         | Pending \<Rightarrow> (st, tr1, Stuck)
         | Resolved _ \<Rightarrow>
             (let n = getNetwork E tr1;
                  tr2 = tr1 @ [GetNetwork n]
              in case n of
                   Rejected e \<Rightarrow> (st, tr2, Threw e)
                 | Pending \<Rightarrow> (st, tr2, Stuck)
                 | Resolved net \<Rightarrow>
                     (let st1 = st\<lparr>network := Some net\<rparr>
                      in if strict_ne_000 (chainId net) BASE_CHAIN_ID then
                           (case switch_000 L E (st1\<lparr>status := msg_switching_000 net\<rparr>) tr2 of
                              (st2, tr3, Finished) \<Rightarrow> after_switch_000 L E s st2 tr3
                            | r \<Rightarrow> r)
                         else finish_connect_000 L E s st1 tr2)))"

definition catch_connect :: "run \<Rightarrow> run" where
  "catch_connect r =
     (case r of
        (st, tr, Threw e) \<Rightarrow> (st\<lparr>status := msg_connection_failed e\<rparr>, tr, Finished)
      | _ \<Rightarrow> r)"

definition connectWallet_000 :: "lib \<Rightarrow> env \<Rightarrow> app_state \<Rightarrow> run" where
  "connectWallet_000 L E s =
     (case provider s of
        None \<Rightarrow> (s\<lparr>status := msg_no_wallet\<rparr>, [], Finished)
      | Some p \<Rightarrow> catch_connect (connect_try_000 L E s))"

text \<open>part\_001 lines 72-92: switch; on failure add. Nothing is thrown and nothing retried.\<close>

definition switch_001 :: "lib \<Rightarrow> env \<Rightarrow> app_state \<Rightarrow> event list \<Rightarrow> run" where
  "switch_001 L E st tr =
     (let sw = send E tr ''wallet_switchEthereumChain'' (switch_request L);
          tr1 = tr @ [Send ''wallet_switchEthereumChain'' (switch_request L) sw]
      in case sw of
           Resolved _ \<Rightarrow> (st, tr1, Finished)
         | Pending \<Rightarrow> (st, tr1, Stuck)
         | Rejected switchError \<Rightarrow>
             (let ad = send E tr1 ''wallet_addEthereumChain'' (add_request L);
                  tr2 = tr1 @ [Send ''wallet_addEthereumChain'' (add_request L) ad]
              in case ad of
                   Rejected addError \<Rightarrow> (st, tr2, Finished)
                 | Pending \<Rightarrow> (st, tr2, Stuck)
                 | Resolved _ \<Rightarrow> (st, tr2, Finished)))"

text \<open>
  part\_001 lines 95-96: \<open>setupSigner\<close> is started and not awaited. It writes the cells
  \<open>signer\<close>, \<open>address\<close>, \<open>balance\<close> and \<open>network\<close> only and \<open>connectWallet\<close> makes no
  further call, so the state and the trace are those of running it first.
\<close>

definition finish_connect_001 :: "lib \<Rightarrow> env \<Rightarrow> app_state \<Rightarrow> event list \<Rightarrow> run" where
  "finish_connect_001 L E st tr =
     (case setupSigner_001 L E st tr of
        (st1, tr1, c) \<Rightarrow> (st1\<lparr>status := msg_connected\<rparr>, tr1, Finished))"

definition connect_try_001 :: "lib \<Rightarrow> env \<Rightarrow> app_state \<Rightarrow> run" where
  "connect_try_001 L E s =
     (let st = s\<lparr>status := msg_connecting_001\<rparr>;
          a = send E [] ''eth_requestAccounts'' NoParam;
          tr1 = [Send ''eth_requestAccounts'' NoParam a]
      in case a of
           Rejected e \<Rightarrow> (st, tr1, Threw e)
         | Pending \<Rightarrow> (st, tr1, Stuck)
         | Resolved _ \<Rightarrow>
             (let n = getNetwork E tr1;
                  tr2 = tr1 @ [GetNetwork n]
              in case n of
                   Rejected e \<Rightarrow> (st, tr2, Threw e)
                 | Pending \<Rightarrow> (st, tr2, Stuck)
                 | Resolved pNetwork \<Rightarrow>
                     (let st1 = st\<lparr>network := Some pNetwork\<rparr>
                      in if chainId pNetwork \<noteq> BASE_CHAIN_ID then
                           (case switch_001 L E st1 tr2 of
                              (st2, tr3, Finished) \<Rightarrow> finish_connect_001 L E st2 tr3
                            | r \<Rightarrow> r)
                         else finish_connect_001 L E st1 tr2)))"

definition connectWallet_001 :: "lib \<Rightarrow> env \<Rightarrow> app_state \<Rightarrow> run" where
  "connectWallet_001 L E s =
     (case provider s of
        None \<Rightarrow> (s\<lparr>status := msg_no_wallet\<rparr>, [], Finished)
      | Some p \<Rightarrow> catch_connect (connect_try_001 L E s))"

subsection \<open>Reading a run\<close>

definition state_of :: "run \<Rightarrow> app_state" where
  "state_of r = fst r"

definition trace_of :: "run \<Rightarrow> event list" where
  "trace_of r = fst (snd r)"

definition completion_of :: "run \<Rightarrow> completion" where
  "completion_of r = snd (snd r)"

fun is_broadcast :: "event \<Rightarrow> bool" where
  "is_broadcast (SendTransaction sg t r) = True"
| "is_broadcast _ = False"

fun is_wait :: "event \<Rightarrow> bool" where
  "is_wait (Wait resp n r) = True"
| "is_wait _ = False"

fun is_balance :: "event \<Rightarrow> bool" where
  "is_balance (GetBalance a r) = True"
| "is_balance _ = False"

fun is_fee :: "event \<Rightarrow> bool" where
  "is_fee (GetFeeData r) = True"
| "is_fee _ = False"

fun is_send :: "event \<Rightarrow> bool" where
  "is_send (Send m p r) = True"
| "is_send _ = False"

fun is_network :: "event \<Rightarrow> bool" where
  "is_network (GetNetwork r) = True"
| "is_network _ = False"

text \<open>A call to the outside, as opposed to a write of the \<open>sending\<close> cell.\<close>

fun is_call :: "event \<Rightarrow> bool" where
  "is_call (SetSending b) = False"
| "is_call _ = True"

fun is_resolved :: "'a outcome \<Rightarrow> bool" where
  "is_resolved (Resolved x) = True"
| "is_resolved _ = False"

text \<open>The promise of the call resolved.\<close>

fun resolved :: "event \<Rightarrow> bool" where
  "resolved (Send m p r) = is_resolved r"
| "resolved (GetNetwork r) = is_resolved r"
| "resolved (GetSigner r) = is_resolved r"
| "resolved (GetAddress sg r) = is_resolved r"
| "resolved (GetBalance a r) = is_resolved r"
| "resolved (ResolveName n r) = is_resolved r"
| "resolved (GetFeeData r) = is_resolved r"
| "resolved (SendTransaction sg t r) = is_resolved r"
| "resolved (Wait resp n r) = is_resolved r"
| "resolved (SetSending b) = True"

text \<open>The promise of the call never settles.\<close>

fun pending :: "event \<Rightarrow> bool" where
  "pending (Send m p r) = (r = Pending)"
| "pending (GetNetwork r) = (r = Pending)"
| "pending (GetSigner r) = (r = Pending)"
| "pending (GetAddress sg r) = (r = Pending)"
| "pending (GetBalance a r) = (r = Pending)"
| "pending (ResolveName n r) = (r = Pending)"
| "pending (GetFeeData r) = (r = Pending)"
| "pending (SendTransaction sg t r) = (r = Pending)"
| "pending (Wait resp n r) = (r = Pending)"
| "pending (SetSending b) = False"

fun is_name :: "event \<Rightarrow> bool" where
  "is_name (ResolveName n r) = True"
| "is_name _ = False"

fun is_rejected :: "'a outcome \<Rightarrow> bool" where
  "is_rejected (Rejected e) = True"
| "is_rejected _ = False"

text \<open>How a block ends at an \<open>await\<close> whose promise did not resolve.\<close>

fun failure :: "'a outcome \<Rightarrow> completion" where
  "failure (Rejected e) = Threw e"
| "failure _ = Stuck"

text \<open>The transaction request before any fee field is set.\<close>

definition base_tx :: "string \<Rightarrow> int \<Rightarrow> tx" where
  "base_tx to v = \<lparr>tx_to = to, tx_value = v, tx_maxFeePerGas = None,
                   tx_maxPriorityFeePerGas = None, tx_gasPrice = None\<rparr>"

text \<open>
  The calls \<open>n\<close> by which part\_000 arrived at the recipient \<open>to\<close>: none when the trimmed
  input is an address, otherwise one name resolution that gave a non-empty answer.
\<close>

definition resolution :: "lib \<Rightarrow> app_state \<Rightarrow> event list \<Rightarrow> string \<Rightarrow> bool" where
  "resolution L s n to =
     (if isAddress L (trim L (recipient s)) then n = [] \<and> to = trim L (recipient s)
      else n = [ResolveName (trim L (recipient s)) (Resolved (Some to))] \<and> to \<noteq> [])"

text \<open>The three requests of \<open>connectWallet\<close> (the last two as of part\_001), with their answers.\<close>

definition Req_accounts :: "unit outcome \<Rightarrow> event" where
  "Req_accounts r = Send ''eth_requestAccounts'' NoParam r"

definition Req_switch :: "lib \<Rightarrow> unit outcome \<Rightarrow> event" where
  "Req_switch L r = Send ''wallet_switchEthereumChain'' (switch_request L) r"

definition Req_add :: "lib \<Rightarrow> unit outcome \<Rightarrow> event" where
  "Req_add L r = Send ''wallet_addEthereumChain'' (add_request L) r"

subsection \<open>A concrete world\<close>

text \<open>
  One library and one environment on which the functions can be evaluated. The library is
  given on the strings the examples use: \<open>Number("0.01")\<close> is positive,
  \<open>parseEther("0.01")\<close> is \<open>10\<^sup>1\<^sup>6\<close> wei, \<open>parseEther("0")\<close> is \<open>0\<close>,
  \<open>hexValue(8453)\<close> is \<open>0x2105\<close>, and the one address is the checksummed
  \<open>demo_recipient\<close>.
\<close>

definition demo_recipient :: string where
  "demo_recipient = ''0x5aAeb6053F3E94C9b9A09f33669435E7Ef1BeAed''"

definition demo_sender :: string where
  "demo_sender = ''0xfB6916095ca1df60bB79Ce92cE3Ea74c37c5d359''"

definition is_space :: "char \<Rightarrow> bool" where
  "is_space c = (c \<in> set [CHR '' '', CHR 0x09, CHR 0x0A, CHR 0x0B, CHR 0x0C, CHR 0x0D])"

definition demo_error :: js_error where
  "demo_error = Error None ''invalid decimal value'' ''Error: invalid decimal value''"

definition demo_lib :: lib where
  "demo_lib =
     \<lparr>Number = (\<lambda>x. if x = ''0.01'' then Finite (1 / 100) else if x = ''1'' then Finite 1
                     else if x = [] then Finite 0 else NaN),
      trim = (\<lambda>x. rev (dropWhile is_space (rev (dropWhile is_space x)))),
      isAddress = (\<lambda>x. x = demo_recipient \<or> x = demo_sender),
      parseEther = (\<lambda>x. if x = ''0.01'' then Inr 10000000000000000
                         else if x = ''1'' then Inr 1000000000000000000
                         else if x = ''0'' then Inr 0 else Inl demo_error),
      formatEther = (\<lambda>n. if n = 1000000000000000000 then ''1.0''
                          else if n = 990000000000000000 then ''0.99''
                          else if n = 0 then ''0.0'' else digits (nat n) @ ''e-18''),
      hexValue = (\<lambda>n. if n = 8453 then ''0x2105'' else ''0x0''),
      null_read = Error None ''Cannot read properties of null''
                    ''TypeError: Cannot read properties of null'',
      not_a_function = (\<lambda>x. x @ '' is not a function'')\<rparr>"

definition demo_fees :: fee_data where
  "demo_fees = \<lparr>maxFeePerGas = Some 2000000000, maxPriorityFeePerGas = Some 1000000000,
                 gasPrice = Some 1500000000\<rparr>"

text \<open>
  Every call resolves; the account holds one ether, and 0.99 ether once a transaction has
  been waited for; the wallet is on Base.
\<close>

definition demo_env :: env where
  "demo_env =
     \<lparr>has_ethereum = True,
      send = (\<lambda>tr m p. Resolved ()),
      getNetwork = (\<lambda>tr. Resolved (Network ''base'' 8453)),
      getSigner = (\<lambda>tr. Resolved (Signer 0)),
      getSigner_sync = (\<lambda>tr. Inr (Signer 0)),
      getAddress = (\<lambda>tr sg. Resolved demo_sender),
      getBalance = (\<lambda>tr a. Resolved (if list_ex is_wait tr then 990000000000000000
                                      else 1000000000000000000)),
      resolveName = (\<lambda>tr n. Resolved None),
      getFeeData = (\<lambda>tr. Resolved (Some demo_fees)),
      sendTransaction = (\<lambda>tr sg t. Resolved (TxResponse ''0xabc'')),
      wait = (\<lambda>tr resp n. Resolved (Some (Receipt 1 100)))\<rparr>"

text \<open>The account holds nothing.\<close>

definition poor_env :: env where
  "poor_env = demo_env\<lparr>getBalance := (\<lambda>tr a. Resolved 0)\<rparr>"

text \<open>The user declines the signature request in the wallet (EIP-1193 code 4001).\<close>

definition user_rejection :: js_error where
  "user_rejection = Error (Some 4001) ''User denied transaction signature.''
     ''Error: User denied transaction signature.''"

definition rejecting_env :: env where
  "rejecting_env = demo_env\<lparr>sendTransaction := (\<lambda>tr sg t. Rejected user_rejection)\<rparr>"

text \<open>The same text thrown without the code, as a failing node would.\<close>

definition other_failure :: js_error where
  "other_failure = Error None ''User denied transaction signature.''
     ''Error: User denied transaction signature.''"

definition failing_env :: env where
  "failing_env = demo_env\<lparr>sendTransaction := (\<lambda>tr sg t. Rejected other_failure)\<rparr>"

text \<open>
  The wallet is on Ethereum mainnet and does not know Base: a switch request fails until
  the chain has been added.
\<close>

definition unknown_chain :: js_error where
  "unknown_chain = Error (Some 4902) ''Unrecognized chain ID'' ''Error: Unrecognized chain ID''"

fun is_add :: "event \<Rightarrow> bool" where
  "is_add (Send m p r) = (m = ''wallet_addEthereumChain'')"
| "is_add _ = False"

fun is_switched :: "event \<Rightarrow> bool" where
  "is_switched (Send m p r) = (m = ''wallet_switchEthereumChain'' \<and> r = Resolved ())"
| "is_switched _ = False"

definition mainnet_env :: env where
  "mainnet_env =
     demo_env\<lparr>getNetwork := (\<lambda>tr. Resolved (if list_ex is_switched tr then Network ''base'' 8453
                                              else Network ''mainnet'' 1)),
              send := (\<lambda>tr m p. if m = ''wallet_switchEthereumChain'' \<and> \<not> list_ex is_add tr
                                 then Rejected unknown_chain else Resolved ())\<rparr>"

text \<open>The confirmation never arrives.\<close>

definition stalled_env :: env where
  "stalled_env = demo_env\<lparr>wait := (\<lambda>tr resp n. Pending)\<rparr>"

text \<open>A connected session about to send 0.01 ether to \<open>demo_recipient\<close>.\<close>

definition demo_state :: app_state where
  "demo_state =
     \<lparr>provider = Some InjectedProvider, signer = Some (Signer 0), address = demo_sender,
      balance = ''1.0'', network = Some (Network ''base'' 8453), recipient = demo_recipient,
      amount = ''0.01'', status = [], sending = False\<rparr>"

text \<open>
  What the wallet's events make of that session in part\_001 when the account list becomes
  empty and then holds the sender again: \<open>resetConnection\<close> has set the provider to
  \<open>null\<close>, and \<open>setupSigner\<close>, called with the provider of the handler's closure, has
  set a signer.
\<close>

definition reconnected_state_001 :: app_state where
  "reconnected_state_001 =
     state_of (accountsChanged_001 demo_lib demo_env
       (state_of (accountsChanged_001 demo_lib demo_env demo_state (Some [])))
       (Some [demo_sender]))"

text \<open>A fee suggestion whose priority fee is zero.\<close>

definition zero_tip_fees :: fee_data where
  "zero_tip_fees = \<lparr>maxFeePerGas = Some 2000000000, maxPriorityFeePerGas = Some 0,
                     gasPrice = Some 1500000000\<rparr>"

text \<open>The wallet is on Ethereum mainnet and knows Base: the switch request succeeds.\<close>

definition willing_env :: env where
  "willing_env =
     demo_env\<lparr>getNetwork := (\<lambda>tr. Resolved (if list_ex is_switched tr then Network ''base'' 8453
                                              else Network ''mainnet'' 1))\<rparr>"

section \<open>The paths of a run\<close>

subsection \<open>\<open>sendPayment\<close> of part\_000\<close>

lemma state_of_tuple [simp]: "state_of (st, tr, c) = st"
  by (simp add: state_of_def)

lemma trace_of_tuple [simp]: "trace_of (st, tr, c) = tr"
  by (simp add: trace_of_def)

lemma completion_of_tuple [simp]: "completion_of (st, tr, c) = c"
  by (simp add: completion_of_def)

text \<open>
  Each stage of \<open>sendPayment\<close> ends in one of a few ways; the rules below list them with
  the state, the trace and the completion of each.
\<close>

lemma not_resolved_cases: "\<not> is_resolved r \<Longrightarrow> (\<exists>e. r = Rejected e) \<or> r = Pending"
  by (cases r) auto

text \<open>After a balance read that resolved, part\_000 throws at the comparison.\<close>

lemma pay_000_paths:
  obtains
    (parse_failed) e where "parseEther L (amount s) = Inl e"
      "pay_000 L E s sg tr to = (s, tr, Threw e)"
  | (balance_failed) v b where "parseEther L (amount s) = Inr v" "\<not> is_resolved b"
      "pay_000 L E s sg tr to = (s, tr @ [GetBalance (address s) b], failure b)"
  | (compared) v bal where "parseEther L (amount s) = Inr v"
      "pay_000 L E s sg tr to =
         (s, tr @ [GetBalance (address s) (Resolved bal)],
          Threw (type_error (not_a_function L ''balBN.lt'')))"
proof (cases "parseEther L (amount s)")
  case (Inl e)
  then show ?thesis using parse_failed by (simp add: pay_000_def)
next
  case (Inr v)
  show ?thesis
  proof (cases "getBalance E tr (address s)")
    case (Rejected e)
    with Inr show ?thesis using balance_failed [of v "Rejected e"] by (simp add: pay_000_def)
  next
    case Pending
    with Inr show ?thesis using balance_failed [of v Pending] by (simp add: pay_000_def)
  next
    case (Resolved bal)
    with Inr show ?thesis using compared [of v bal] by (simp add: pay_000_def lt_000_def)
  qed
qed

lemma try_000_stages:
  obtains
    (unresolved) m where "\<not> isAddress L (trim L (recipient s))"
      "m = Resolved None \<or> m = Resolved (Some [])"
      "try_000 L E s sg = (s\<lparr>status := msg_unresolved_000\<rparr>, [ResolveName (trim L (recipient s)) m], Finished)"
  | (name_failed) m where "\<not> isAddress L (trim L (recipient s))" "\<not> is_resolved m"
      "try_000 L E s sg = (s, [ResolveName (trim L (recipient s)) m], failure m)"
  | (named) n to where "resolution L s n to" "try_000 L E s sg = pay_000 L E s sg n to"
proof (cases "isAddress L (trim L (recipient s))")
  case True
  then show ?thesis using named [of "[]" "trim L (recipient s)"]
    by (simp add: try_000_def resolution_def)
next
  case False
  show ?thesis
  proof (cases "resolveName E [] (trim L (recipient s))")
    case (Rejected e)
    with False show ?thesis using name_failed [of "Rejected e"] by (simp add: try_000_def)
  next
    case Pending
    with False show ?thesis using name_failed [of Pending] by (simp add: try_000_def)
  next
    case (Resolved x)
    show ?thesis
    proof (cases x)
      case None
      with False Resolved show ?thesis using unresolved [of "Resolved None"]
        by (simp add: try_000_def)
    next
      case (Some a)
      show ?thesis
      proof (cases "a = []")
        case True
        with False Resolved Some show ?thesis using unresolved [of "Resolved (Some [])"]
          by (simp add: try_000_def)
      next
        case F: False
        with False Resolved Some show ?thesis using named [of "[ResolveName (trim L (recipient s)) (Resolved (Some a))]" a]
          by (simp add: try_000_def resolution_def)
      qed
    qed
  qed
qed

lemma try_000_paths:
  obtains
    (unresolved) m where "\<not> isAddress L (trim L (recipient s))"
      "m = Resolved None \<or> m = Resolved (Some [])"
      "try_000 L E s sg = (s\<lparr>status := msg_unresolved_000\<rparr>, [ResolveName (trim L (recipient s)) m], Finished)"
  | (name_failed) m where "\<not> isAddress L (trim L (recipient s))" "\<not> is_resolved m"
      "try_000 L E s sg = (s, [ResolveName (trim L (recipient s)) m], failure m)"
  | (parse_failed) n to e where "resolution L s n to" "parseEther L (amount s) = Inl e"
      "try_000 L E s sg = (s, n, Threw e)"
  | (balance_failed) n to v b where "resolution L s n to" "parseEther L (amount s) = Inr v"
      "\<not> is_resolved b"
      "try_000 L E s sg = (s, n @ [GetBalance (address s) b], failure b)"
  | (compared) n to v bal where "resolution L s n to" "parseEther L (amount s) = Inr v"
      "try_000 L E s sg =
         (s, n @ [GetBalance (address s) (Resolved bal)],
          Threw (type_error (not_a_function L ''balBN.lt'')))"
proof (cases rule: try_000_stages [where L=L and s=s and E=E and sg=sg])
  case (unresolved m)
  then show ?thesis using that(1) by blast
next
  case (name_failed m)
  then show ?thesis using that(2) by blast
next
  case (named n to)
  note nm = named
  show ?thesis
  proof (cases rule: pay_000_paths [where L=L and s=s and E=E and sg=sg and tr=n and to=to])
    case (parse_failed e)
    with nm show ?thesis using that(3) [where n=n and to=to and e=e] by simp
  next
    case (balance_failed v b)
    with nm show ?thesis using that(4) [where n=n and to=to and v=v and b=b] by simp
  next
    case (compared v bal)
    with nm show ?thesis using that(5) [where n=n and to=to and v=v and bal=bal] by simp
  qed
qed

lemma resolution_names:
  "resolution L s n to \<Longrightarrow> n = [] \<or> (\<exists>r. n = [ResolveName r (Resolved (Some to))])"
  by (auto simp: resolution_def split: if_splits)

lemma sendPayment_000_cases:
  obtains
    (idle) "sendPayment_000 L E s =
        (s\<lparr>status := (if provider s = None \<or> signer s = None then msg_not_connected
                         else msg_invalid_amount_000)\<rparr>, [], Finished)"
      "provider s = None \<or> signer s = None \<or>
       amount s = [] \<or> isNaN (Number L (amount s)) \<or> le_zero (Number L (amount s))"
  | (tried) sg where "provider s \<noteq> None" "signer s = Some sg"
      "\<not> (amount s = [] \<or> isNaN (Number L (amount s)) \<or> le_zero (Number L (amount s)))"
      "sendPayment_000 L E s = finally_send (catch_000 (try_000 L E s sg))"
proof (cases "provider s = None \<or> signer s = None")
  case True
  then show ?thesis using idle by (auto simp: sendPayment_000_def split: option.splits)
next
  case False
  then obtain p sg where ps: "provider s = Some p" "signer s = Some sg" by auto
  show ?thesis
  proof (cases "amount s = [] \<or> isNaN (Number L (amount s)) \<or> le_zero (Number L (amount s))")
    case True
    with ps show ?thesis using idle by (simp add: sendPayment_000_def)
  next
    case F: False
    with ps show ?thesis using tried [of sg] by (simp add: sendPayment_000_def)
  qed
qed

text \<open>
  So no run of part\_000 gets as far as \<open>setSending(true)\<close>, the fee suggestion, the
  broadcast or the wait, and the insufficient-balance status is never set: once the
  balance has been read, the status is that of the \<open>TypeError\<close>.
\<close>

lemma sendPayment_000_stops_at_comparison:
  "filter (\<lambda>e. is_fee e \<or> is_broadcast e \<or> is_wait e) (trace_of (sendPayment_000 L E s)) = []
   \<and> SetSending True \<notin> set (trace_of (sendPayment_000 L E s))"
proof (cases rule: sendPayment_000_cases [where L=L and E=E and s=s])
  case idle
  then show ?thesis by simp
next
  case (tried sg)
  show ?thesis unfolding tried(4)
    by (cases rule: try_000_paths [where L=L and E=E and s=s and sg=sg])
       (auto simp: finally_send_def catch_000_def dest!: resolution_names not_resolved_cases)
qed

lemma sendPayment_000_after_balance_read:
  assumes "GetBalance a (Resolved bal) \<in> set (trace_of (sendPayment_000 L E s))"
  shows "state_of (sendPayment_000 L E s) =
           s\<lparr>status := msg_send_failed (type_error (not_a_function L ''balBN.lt'')),
              sending := False\<rparr>"
proof (cases rule: sendPayment_000_cases [where L=L and E=E and s=s])
  case idle
  with assms show ?thesis by simp
next
  case (tried sg)
  show ?thesis using assms unfolding tried(4)
    by (cases rule: try_000_paths [where L=L and E=E and s=s and sg=sg])
       (auto simp: finally_send_def catch_000_def type_error_def
             dest!: resolution_names not_resolved_cases)
qed

text \<open>The \<open>finally\<close> block, read through the three projections.\<close>

lemma trace_finally:
  "trace_of (finally_send r) =
     trace_of r @ (if completion_of r = Stuck then [] else [SetSending False])"
  by (cases r) (simp add: finally_send_def split: completion.split)

lemma state_finally:
  "state_of (finally_send r) =
     (if completion_of r = Stuck then state_of r else (state_of r)\<lparr>sending := False\<rparr>)"
  by (cases r) (simp add: finally_send_def split: completion.split)

lemma completion_finally: "completion_of (finally_send r) = completion_of r"
  by (cases r) (simp add: finally_send_def split: completion.split)

subsection \<open>\<open>sendPayment\<close> of part\_001\<close>

lemma receipt_001_paths:
  obtains
    (receipt_failed) "rc = None \<or> (\<exists>r. rc = Some r \<and> receipt_status r \<noteq> 1)"
      "receipt_001 L E s st tr resp rc = (st\<lparr>status := msg_failed\<rparr>, tr, Finished)"
  | (no_provider) r where "rc = Some r" "receipt_status r = 1" "provider s = None"
      "receipt_001 L E s st tr resp rc =
         (st\<lparr>status := msg_confirmed r resp\<rparr>, tr, Threw (null_read L))"
  | (refresh_failed) r b where "rc = Some r" "receipt_status r = 1" "provider s \<noteq> None"
      "\<not> is_resolved b"
      "receipt_001 L E s st tr resp rc =
         (st\<lparr>status := msg_confirmed r resp\<rparr>, tr @ [GetBalance (address s) b], failure b)"
  | (confirmed) r nb where "rc = Some r" "receipt_status r = 1" "provider s \<noteq> None"
      "receipt_001 L E s st tr resp rc =
         (st\<lparr>status := msg_confirmed r resp, balance := formatEther L nb, recipient := [], amount := []\<rparr>,
          tr @ [GetBalance (address s) (Resolved nb)], Finished)"
proof (cases rc)
  case None
  then show ?thesis using receipt_failed by (simp add: receipt_001_def)
next
  case (Some r)
  show ?thesis
  proof (cases "receipt_status r = 1")
    case False
    with Some show ?thesis using receipt_failed by (simp add: receipt_001_def)
  next
    case True
    show ?thesis
    proof (cases "provider s")
      case None
      with Some True show ?thesis using no_provider [of r] by (simp add: receipt_001_def)
    next
      case P: (Some p)
      show ?thesis
      proof (cases "getBalance E tr (address s)")
        case (Resolved nb)
        with Some True P show ?thesis using confirmed [of r nb] by (simp add: receipt_001_def)
      next
        case (Rejected e)
        with Some True P show ?thesis using refresh_failed [of r "Rejected e"]
          by (simp add: receipt_001_def)
      next
        case Pending
        with Some True P show ?thesis using refresh_failed [of r Pending]
          by (simp add: receipt_001_def)
      qed
    qed
  qed
qed

lemma try_001_stages:
  obtains
    (send_failed) r where "\<not> is_resolved r"
      "try_001 L E s sg v =
         (s\<lparr>sending := True, status := msg_preparing\<rparr>,
          [SetSending True, SendTransaction sg (base_tx (recipient s) v) r], failure r)"
  | (wait_failed) resp w where "\<not> is_resolved w"
      "try_001 L E s sg v =
         (s\<lparr>sending := True, status := msg_sent_001 resp\<rparr>,
          [SetSending True, SendTransaction sg (base_tx (recipient s) v) (Resolved resp),
           Wait resp 1 w], failure w)"
  | (waited) resp rc where
      "try_001 L E s sg v =
         receipt_001 L E s (s\<lparr>sending := True, status := msg_sent_001 resp\<rparr>)
          [SetSending True, SendTransaction sg (base_tx (recipient s) v) (Resolved resp),
           Wait resp 1 (Resolved rc)] resp rc"
proof (cases "sendTransaction E [SetSending True] sg (base_tx (recipient s) v)")
  case (Rejected e)
  then show ?thesis using send_failed [of "Rejected e"]
    by (simp add: try_001_def base_tx_def)
next
  case Pending
  then show ?thesis using send_failed [of Pending]
    by (simp add: try_001_def base_tx_def)
next
  case (Resolved resp)
  let ?tr1 = "[SetSending True, SendTransaction sg (base_tx (recipient s) v) (Resolved resp)]"
  show ?thesis
  proof (cases "wait E ?tr1 resp 1")
    case (Rejected e)
    with Resolved show ?thesis using wait_failed [of "Rejected e" resp]
      by (simp add: try_001_def base_tx_def)
  next
    case Pending
    with Resolved show ?thesis using wait_failed [of Pending resp]
      by (simp add: try_001_def base_tx_def)
  next
    case R2: (Resolved rc)
    with Resolved show ?thesis using waited [of resp rc]
      by (simp add: try_001_def base_tx_def)
  qed
qed

lemma try_001_paths:
  obtains
    (send_failed) r where "\<not> is_resolved r"
      "try_001 L E s sg v =
         (s\<lparr>sending := True, status := msg_preparing\<rparr>,
          [SetSending True, SendTransaction sg (base_tx (recipient s) v) r], failure r)"
  | (wait_failed) resp w where "\<not> is_resolved w"
      "try_001 L E s sg v =
         (s\<lparr>sending := True, status := msg_sent_001 resp\<rparr>,
          [SetSending True, SendTransaction sg (base_tx (recipient s) v) (Resolved resp),
           Wait resp 1 w], failure w)"
  | (receipt_failed) resp rc where "rc = None \<or> (\<exists>r. rc = Some r \<and> receipt_status r \<noteq> 1)"
      "try_001 L E s sg v =
         (s\<lparr>sending := True, status := msg_failed\<rparr>,
          [SetSending True, SendTransaction sg (base_tx (recipient s) v) (Resolved resp),
           Wait resp 1 (Resolved rc)], Finished)"
  | (no_provider) resp r where "receipt_status r = 1" "provider s = None"
      "try_001 L E s sg v =
         (s\<lparr>sending := True, status := msg_confirmed r resp\<rparr>,
          [SetSending True, SendTransaction sg (base_tx (recipient s) v) (Resolved resp),
           Wait resp 1 (Resolved (Some r))], Threw (null_read L))"
  | (refresh_failed) resp r b where "receipt_status r = 1" "provider s \<noteq> None"
      "\<not> is_resolved b"
      "try_001 L E s sg v =
         (s\<lparr>sending := True, status := msg_confirmed r resp\<rparr>,
          [SetSending True, SendTransaction sg (base_tx (recipient s) v) (Resolved resp),
           Wait resp 1 (Resolved (Some r)), GetBalance (address s) b], failure b)"
  | (confirmed) resp r nb where "receipt_status r = 1" "provider s \<noteq> None"
      "try_001 L E s sg v =
         (s\<lparr>sending := True, status := msg_confirmed r resp, balance := formatEther L nb,
            recipient := [], amount := []\<rparr>,
          [SetSending True, SendTransaction sg (base_tx (recipient s) v) (Resolved resp),
           Wait resp 1 (Resolved (Some r)), GetBalance (address s) (Resolved nb)], Finished)"
proof (cases rule: try_001_stages [where L=L and E=E and s=s and sg=sg and v=v])
  case (send_failed r)
  then show ?thesis using that(1) by blast
next
  case (wait_failed resp w)
  then show ?thesis using that(2) by blast
next
  case (waited resp rc)
  note wt = waited
  let ?st1 = "s\<lparr>sending := True, status := msg_sent_001 resp\<rparr>"
  let ?tr1 = "[SetSending True, SendTransaction sg (base_tx (recipient s) v) (Resolved resp),
           Wait resp 1 (Resolved rc)]"
  show ?thesis
  proof (cases rule: receipt_001_paths [where L=L and s=s and E=E and tr="?tr1"
            and st="?st1" and resp=resp and rc=rc])
    case receipt_failed
    with wt show ?thesis using that(3) [where resp=resp and rc=rc] by simp
  next
    case (no_provider r)
    with wt show ?thesis using that(4) [where resp=resp and r=r] by simp
  next
    case (refresh_failed r b)
    with wt show ?thesis using that(5) [where resp=resp and r=r and b=b] by simp
  next
    case (confirmed r nb)
    with wt show ?thesis using that(6) [where resp=resp and r=r and nb=nb] by simp
  qed
qed

lemma sendPayment_001_cases:
  obtains
    (idle) "sendPayment_001 L E s =
        (s\<lparr>status := (if signer s = None then msg_not_connected
                         else if \<not> isAddress L (recipient s) then msg_invalid_recipient_001
                         else msg_invalid_amount_001)\<rparr>, [], Finished)"
      "signer s = None \<or> \<not> isAddress L (recipient s) \<or>
       (\<exists>e. parseEther L (if amount s = [] then ''0'' else amount s) = Inl e)"
  | (tried) sg v where "signer s = Some sg" "isAddress L (recipient s)"
      "parseEther L (if amount s = [] then ''0'' else amount s) = Inr v"
      "sendPayment_001 L E s = finally_send (catch_001 (try_001 L E s sg v))"
proof (cases "signer s")
  case None
  then show ?thesis using idle by (simp add: sendPayment_001_def)
next
  case (Some sg)
  show ?thesis
  proof (cases "isAddress L (recipient s)")
    case False
    with Some show ?thesis using idle by (simp add: sendPayment_001_def)
  next
    case True
    show ?thesis
    proof (cases "parseEther L (if amount s = [] then ''0'' else amount s)")
      case (Inl e)
      with Some True show ?thesis using idle by (simp add: sendPayment_001_def)
    next
      case (Inr v)
      with Some True show ?thesis using tried [of sg v] by (simp add: sendPayment_001_def)
    qed
  qed
qed

subsection \<open>\<open>connectWallet\<close>\<close>

lemma signer_steps_trace:
  "\<exists>ext. trace_of (signer_steps L E st tr sg) = tr @ ext \<and> filter is_send ext = []"
  by (simp add: signer_steps_def Let_def split: outcome.split)

lemma setupSigner_000_trace:
  "\<exists>ext. trace_of (setupSigner_000 L E c st tr) = tr @ ext \<and> filter is_send ext = []"
proof (cases "getSigner E tr")
  case (Resolved sg)
  obtain ext where ext: "trace_of (signer_steps L E st (tr @ [GetSigner (Resolved sg)]) sg)
      = (tr @ [GetSigner (Resolved sg)]) @ ext" "filter is_send ext = []"
    using signer_steps_trace by blast
  obtain st' tr' c' where r: "signer_steps L E st (tr @ [GetSigner (Resolved sg)]) sg = (st', tr', c')"
    by (cases "signer_steps L E st (tr @ [GetSigner (Resolved sg)]) sg") auto
  with ext have "tr' = tr @ GetSigner (Resolved sg) # ext" by simp
  with Resolved r ext(2) show ?thesis
    by (simp add: setupSigner_000_def Let_def split: completion.split)
next
  case (Rejected e)
  then show ?thesis by (simp add: setupSigner_000_def)
next
  case Pending
  then show ?thesis by (simp add: setupSigner_000_def)
qed

lemma setupSigner_001_trace:
  "\<exists>ext. trace_of (setupSigner_001 L E st tr) = tr @ ext \<and> filter is_send ext = []"
proof (cases "getSigner_sync E tr")
  case (Inr sg)
  obtain ext where ext: "trace_of (signer_steps L E st (tr @ [GetSigner (Resolved sg)]) sg)
      = (tr @ [GetSigner (Resolved sg)]) @ ext" "filter is_send ext = []"
    using signer_steps_trace by blast
  obtain st' tr' c' where r: "signer_steps L E st (tr @ [GetSigner (Resolved sg)]) sg = (st', tr', c')"
    by (cases "signer_steps L E st (tr @ [GetSigner (Resolved sg)]) sg") auto
  with ext have "tr' = tr @ GetSigner (Resolved sg) # ext" by simp
  with Inr r ext(2) show ?thesis
    by (simp add: setupSigner_001_def Let_def split: completion.split)
next
  case (Inl e)
  then show ?thesis by (simp add: setupSigner_001_def)
qed

lemma finish_connect_000_trace:
  "\<exists>ext. trace_of (finish_connect_000 L E s st tr) = tr @ ext \<and> filter is_send ext = []"
proof -
  obtain st' tr' c' where r: "setupSigner_000 L E (address s) st tr = (st', tr', c')"
    by (cases "setupSigner_000 L E (address s) st tr") auto
  with setupSigner_000_trace [of L E "address s" st tr] show ?thesis
    by (simp add: finish_connect_000_def split: completion.split)
qed

lemma finish_connect_001_trace:
  "\<exists>ext. trace_of (finish_connect_001 L E st tr) = tr @ ext \<and> filter is_send ext = []"
proof -
  obtain st' tr' c' where r: "setupSigner_001 L E st tr = (st', tr', c')"
    by (cases "setupSigner_001 L E st tr") auto
  with setupSigner_001_trace [of L E st tr] show ?thesis
    by (simp add: finish_connect_001_def)
qed

lemma after_switch_000_trace:
  "\<exists>ext. trace_of (after_switch_000 L E s st tr) = tr @ ext \<and> filter is_send ext = []"
proof (cases "getNetwork E tr")
  case (Resolved n)
  obtain ext where "trace_of (finish_connect_000 L E s (st\<lparr>network := Some n\<rparr>) (tr @ [GetNetwork (Resolved n)]))
     = (tr @ [GetNetwork (Resolved n)]) @ ext" "filter is_send ext = []"
    using finish_connect_000_trace by blast
  with Resolved show ?thesis by (simp add: after_switch_000_def)
next
  case (Rejected e)
  then show ?thesis by (simp add: after_switch_000_def)
next
  case Pending
  then show ?thesis by (simp add: after_switch_000_def)
qed

lemma switch_001_paths:
  obtains
    (switched) r where "\<not> is_rejected r"
      "switch_001 L E st tr = (st, tr @ [Req_switch L r], if is_resolved r then Finished else Stuck)"
  | (added) e r where
      "switch_001 L E st tr =
         (st, tr @ [Req_switch L (Rejected e), Req_add L r],
          if r = Pending then Stuck else Finished)"
proof (cases "send E tr ''wallet_switchEthereumChain'' (switch_request L)")
  case (Resolved u)
  then show ?thesis using switched [of "Resolved u"]
    by (simp add: switch_001_def Req_switch_def)
next
  case Pending
  then show ?thesis using switched [of Pending]
    by (simp add: switch_001_def Req_switch_def)
next
  case (Rejected e)
  let ?tr1 = "tr @ [Send ''wallet_switchEthereumChain'' (switch_request L) (Rejected e)]"
  from Rejected show ?thesis
    using added [where e=e and r="send E ?tr1 ''wallet_addEthereumChain'' (add_request L)"]
    by (cases "send E ?tr1 ''wallet_addEthereumChain'' (add_request L)")
       (simp_all add: switch_001_def Req_switch_def Req_add_def Let_def)
qed

lemma Req_simps [simp]:
  "is_send (Req_accounts r)" "is_send (Req_switch L r)" "is_send (Req_add L r)"
  "\<not> is_network (Req_accounts r)" "\<not> is_network (Req_switch L r)" "\<not> is_network (Req_add L r)"
  by (simp_all add: Req_accounts_def Req_switch_def Req_add_def)

lemma trace_catch_connect: "trace_of (catch_connect r) = trace_of r"
  by (cases r) (simp add: catch_connect_def split: completion.split)

lemma connect_try_001_sends:
  assumes nw: "filter is_network (trace_of (connect_try_001 L E s)) = GetNetwork (Resolved net) # rest"
    and ch: "chainId net \<noteq> BASE_CHAIN_ID"
  shows "(\<exists>r. \<not> is_rejected r \<and> filter is_send (trace_of (connect_try_001 L E s)) =
            [Req_accounts (Resolved ()), Req_switch L r])
       \<or> (\<exists>e r. filter is_send (trace_of (connect_try_001 L E s)) =
            [Req_accounts (Resolved ()), Req_switch L (Rejected e), Req_add L r])"
proof (cases "send E [] ''eth_requestAccounts'' NoParam")
  case (Rejected e)
  with nw show ?thesis by (simp add: connect_try_001_def)
next
  case Pending
  with nw show ?thesis by (simp add: connect_try_001_def)
next
  case (Resolved u)
  let ?tr1 = "[Req_accounts (Resolved ())]"
  have tr1: "[Send ''eth_requestAccounts'' NoParam (Resolved u)] = ?tr1"
    by (simp add: Req_accounts_def)
  show ?thesis
  proof (cases "getNetwork E ?tr1")
    case (Rejected e)
    with nw Resolved tr1 show ?thesis by (simp add: connect_try_001_def)
  next
    case Pending
    with nw Resolved tr1 show ?thesis by (simp add: connect_try_001_def)
  next
    case N: (Resolved net')
    let ?tr2 = "[Req_accounts (Resolved ()), GetNetwork (Resolved net')]"
    let ?st1 = "s\<lparr>status := msg_connecting_001, network := Some net'\<rparr>"
    let ?sw = "switch_001 L E ?st1 ?tr2"
    have ct: "connect_try_001 L E s =
        (if chainId net' \<noteq> BASE_CHAIN_ID then
           (case ?sw of (st2, tr3, Finished) \<Rightarrow> finish_connect_001 L E st2 tr3 | r \<Rightarrow> r)
         else finish_connect_001 L E ?st1 ?tr2)"
      using Resolved N tr1 by (simp add: connect_try_001_def)
    have same: "net' = net"
    proof (cases "chainId net' \<noteq> BASE_CHAIN_ID")
      case False
      obtain ext where "trace_of (finish_connect_001 L E ?st1 ?tr2) = ?tr2 @ ext"
        using finish_connect_001_trace by blast
      with nw ct False show ?thesis by simp
    next
      case True
      obtain st2 tr3 c where sw: "?sw = (st2, tr3, c)" by (cases ?sw) auto
      obtain ext where ext: "trace_of (finish_connect_001 L E st2 tr3) = tr3 @ ext"
        using finish_connect_001_trace by blast
      have "\<exists>x. tr3 = ?tr2 @ x"
        using sw by (cases rule: switch_001_paths [where L=L and E=E
              and st="?st1" and tr="?tr2"]) auto
      then obtain x where "tr3 = ?tr2 @ x" by blast
      with nw ct True sw ext show ?thesis
        by (cases c) simp_all
    qed
    with ch have True: "chainId net' \<noteq> BASE_CHAIN_ID" by simp
    obtain st2 tr3 c where sw: "?sw = (st2, tr3, c)" by (cases ?sw) auto
    obtain ext where ext: "trace_of (finish_connect_001 L E st2 tr3) = tr3 @ ext"
      "filter is_send ext = []"
      using finish_connect_001_trace by blast
    have tr: "filter is_send (trace_of (connect_try_001 L E s)) = filter is_send tr3"
      using ct True sw ext by (cases c) simp_all
    show ?thesis
      using sw unfolding tr
      by (cases rule: switch_001_paths [where L=L and E=E and st="?st1" and tr="?tr2"]) auto
  qed
qed

text \<open>
  In part\_000 both \<open>try\<close> blocks end at \<open>hexValue\<close> before anything is sent, so
  \<open>eth_requestAccounts\<close> is the only request \<open>connectWallet\<close> ever makes.
\<close>

lemma switch_000_sends_nothing:
  "switch_000 L E st tr = (st\<lparr>status := msg_manual_000\<rparr>, tr, Finished)"
  by (simp add: switch_000_def switch_try_000_def add_try_000_def hexValue_000_def)

lemma connectWallet_000_requests:
  "filter is_send (trace_of (connectWallet_000 L E s)) =
     (if provider s = None then []
      else [Req_accounts (send E [] ''eth_requestAccounts'' NoParam)])"
proof (cases "provider s")
  case None
  then show ?thesis by (simp add: connectWallet_000_def)
next
  case (Some p)
  let ?a = "send E [] ''eth_requestAccounts'' NoParam"
  have run: "trace_of (connectWallet_000 L E s) = trace_of (connect_try_000 L E s)"
    using Some by (simp add: connectWallet_000_def trace_catch_connect)
  have "filter is_send (trace_of (connect_try_000 L E s)) = [Req_accounts ?a]"
  proof (cases ?a)
    case (Rejected e)
    then show ?thesis by (simp add: connect_try_000_def Req_accounts_def)
  next
    case Pending
    then show ?thesis by (simp add: connect_try_000_def Req_accounts_def)
  next
    case (Resolved u)
    let ?tr1 = "[Send ''eth_requestAccounts'' NoParam (Resolved u)]"
    show ?thesis
    proof (cases "getNetwork E ?tr1")
      case (Rejected e)
      with Resolved show ?thesis by (simp add: connect_try_000_def Req_accounts_def)
    next
      case Pending
      with Resolved show ?thesis by (simp add: connect_try_000_def Req_accounts_def)
    next
      case N: (Resolved net)
      let ?tr2 = "?tr1 @ [GetNetwork (Resolved net)]"
      let ?st2 = "s\<lparr>status := msg_requesting_000, network := Some net,
                    status := msg_switching_000 net, status := msg_manual_000\<rparr>"
      obtain ext where ext: "trace_of (after_switch_000 L E s ?st2 ?tr2) = ?tr2 @ ext"
        "filter is_send ext = []"
        using after_switch_000_trace by blast
      have "connect_try_000 L E s = after_switch_000 L E s ?st2 ?tr2"
        using Resolved N
        by (simp add: connect_try_000_def strict_ne_000_def switch_000_sends_nothing)
      with ext Resolved show ?thesis
        by (simp add: Req_accounts_def)
    qed
  qed
  with Some run show ?thesis by simp
qed

section \<open>The claims\<close>

text \<open>Unfolding sets for evaluating the functions in the concrete world.\<close>

lemmas demo_defs = demo_lib_def demo_env_def demo_state_def demo_fees_def demo_recipient_def
  demo_sender_def poor_env_def rejecting_env_def failing_env_def mainnet_env_def is_space_def
  demo_error_def user_rejection_def other_failure_def unknown_chain_def stalled_env_def
  willing_env_def zero_tip_fees_def

lemmas send_000_defs = sendPayment_000_def try_000_def pay_000_def lt_000_def type_error_def
  catch_000_def finally_send_def isNaN_def le_zero_def

lemmas send_001_defs = sendPayment_001_def try_001_def receipt_001_def catch_001_def
  finally_send_def

lemmas connect_001_defs = connectWallet_001_def connect_try_001_def switch_001_def
  finish_connect_001_def setupSigner_001_def signer_steps_def catch_connect_def
  switch_request_def add_request_def BASE_CHAIN_ID_def Req_accounts_def Req_switch_def
  Req_add_def

subsection \<open>Validation before the broadcast\<close>

text \<open>
  Claim C1 says that a balance below the amount gives the insufficient-balance status and
  no broadcast. part\_000 means to do so at lines 214-218, but the comparison of line 215
  throws: with nothing on the account and 0.01 ether asked for, the balance is read, the
  \<open>catch\<close> block reports the \<open>TypeError\<close> as a failed send, and the
  insufficient-balance text is not the status. (Nothing is broadcast, as in every run of
  part\_000.)
\<close>

theorem insufficient_balance_throws:
  "parseEther demo_lib (amount demo_state) = Inr 10000000000000000
   \<and> sendPayment_000 demo_lib poor_env demo_state =
       (demo_state\<lparr>status := ''Send failed: balBN.lt is not a function''\<rparr>,
        [GetBalance demo_sender (Resolved 0), SetSending False], Finished)
   \<and> msg_insufficient_000 \<noteq> ''Send failed: balBN.lt is not a function''"
  by (simp add: send_000_defs demo_defs msg_send_failed_def err_text_def
        msg_insufficient_000_def)

text \<open>
  Claim C2, for part\_000. If the amount is the empty string, or \<open>Number\<close> makes it
  \<open>NaN\<close> or a value \<open>\<le> 0\<close>, then \<open>sendPayment\<close> returns with an empty trace: no
  call to the provider, the signer or the wallet was made. The only change of state is the
  status, which is the invalid-amount text when provider and signer are present and
  \<open>Wallet not connected\<close> otherwise, that check coming first.
\<close>

theorem invalid_amount_000:
  assumes "amount s = [] \<or> isNaN (Number L (amount s)) \<or> le_zero (Number L (amount s))"
  shows "trace_of (sendPayment_000 L E s) = []
    \<and> completion_of (sendPayment_000 L E s) = Finished
    \<and> state_of (sendPayment_000 L E s) =
        s\<lparr>status := (if provider s = None \<or> signer s = None then msg_not_connected
                       else msg_invalid_amount_000)\<rparr>"
proof (cases rule: sendPayment_000_cases [where L=L and E=E and s=s])
  case idle
  then show ?thesis by simp
next
  case (tried sg)
  with assms show ?thesis by simp
qed

text \<open>C2 at work: the amount \<open>abc\<close> is not a number.\<close>

theorem invalid_amount_000_witness:
  "isNaN (Number demo_lib (amount (demo_state\<lparr>amount := ''abc''\<rparr>)))
   \<and> trace_of (sendPayment_000 demo_lib demo_env (demo_state\<lparr>amount := ''abc''\<rparr>)) = []
   \<and> completion_of (sendPayment_000 demo_lib demo_env (demo_state\<lparr>amount := ''abc''\<rparr>)) = Finished
   \<and> status (state_of (sendPayment_000 demo_lib demo_env (demo_state\<lparr>amount := ''abc''\<rparr>)))
       = msg_invalid_amount_000"
proof -
  have h: "isNaN (Number demo_lib (amount (demo_state\<lparr>amount := ''abc''\<rparr>)))"
    by (simp add: demo_defs isNaN_def)
  then have "amount (demo_state\<lparr>amount := ''abc''\<rparr>) = []
      \<or> isNaN (Number demo_lib (amount (demo_state\<lparr>amount := ''abc''\<rparr>)))
      \<or> le_zero (Number demo_lib (amount (demo_state\<lparr>amount := ''abc''\<rparr>)))"
    by blast
  from invalid_amount_000 [OF this, of demo_env] h show ?thesis
    by (simp add: demo_state_def)
qed

text \<open>
  C2 fails for part\_001, which parses \<open>amount || "0"\<close>: the empty amount is the amount
  zero, and a transaction of value 0 is broadcast and waited for.
\<close>

theorem invalid_amount_001_counterexample:
  "amount (demo_state\<lparr>amount := []\<rparr>) = []
   \<and> le_zero (Number demo_lib [])
   \<and> trace_of (sendPayment_001 demo_lib demo_env (demo_state\<lparr>amount := []\<rparr>)) =
       [SetSending True,
        SendTransaction (Signer 0) (base_tx demo_recipient 0) (Resolved (TxResponse ''0xabc'')),
        Wait (TxResponse ''0xabc'') 1 (Resolved (Some (Receipt 1 100))),
        GetBalance demo_sender (Resolved 990000000000000000),
        SetSending False]"
  by (simp add: send_001_defs demo_defs base_tx_def le_zero_def)

text \<open>
  Claim C3, for part\_000. With a wallet connected and a valid amount, a recipient whose
  trimmed text is not an address makes \<open>provider.resolveName\<close> the first call. If the
  name resolves to \<open>null\<close> or to the empty string, the status is the text about an
  unresolvable recipient, nothing follows the resolution but the \<open>finally\<close> block, and
  the function has returned; so nothing was broadcast.
\<close>

theorem unresolved_recipient_000:
  assumes "provider s \<noteq> None" and "signer s \<noteq> None"
    and "\<not> (amount s = [] \<or> isNaN (Number L (amount s)) \<or> le_zero (Number L (amount s)))"
    and "\<not> isAddress L (trim L (recipient s))"
  shows "\<exists>m rest. trace_of (sendPayment_000 L E s) = ResolveName (trim L (recipient s)) m # rest
    \<and> ((m = Resolved None \<or> m = Resolved (Some [])) \<longrightarrow>
          status (state_of (sendPayment_000 L E s)) = msg_unresolved_000
          \<and> rest = [SetSending False]
          \<and> completion_of (sendPayment_000 L E s) = Finished)"
proof (cases rule: sendPayment_000_cases [where L=L and E=E and s=s])
  case idle
  with assms show ?thesis by auto
next
  case (tried sg)
  show ?thesis using assms(4) unfolding tried(4)
    by (cases rule: try_000_paths [where L=L and E=E and s=s and sg=sg])
       (auto simp: finally_send_def catch_000_def resolution_def dest!: not_resolved_cases)
qed

text \<open>C3 at work: no name service knows \<open>vitalik.eth\<close> here.\<close>

theorem unresolved_recipient_000_witness:
  "\<not> isAddress demo_lib (trim demo_lib ''vitalik.eth'')
   \<and> sendPayment_000 demo_lib demo_env (demo_state\<lparr>recipient := ''vitalik.eth''\<rparr>) =
       (demo_state\<lparr>recipient := ''vitalik.eth'', status := msg_unresolved_000\<rparr>,
        [ResolveName ''vitalik.eth'' (Resolved None), SetSending False], Finished)"
proof -
  let ?s = "demo_state\<lparr>recipient := ''vitalik.eth''\<rparr>"
  have h1: "provider ?s \<noteq> None" and h2: "signer ?s \<noteq> None"
    by (simp_all add: demo_defs)
  have h3: "\<not> (amount ?s = [] \<or> isNaN (Number demo_lib (amount ?s))
      \<or> le_zero (Number demo_lib (amount ?s)))"
    by (simp add: demo_defs isNaN_def le_zero_def)
  have h4: "\<not> isAddress demo_lib (trim demo_lib (recipient ?s))"
    by (simp add: demo_defs)
  have run: "sendPayment_000 demo_lib demo_env ?s =
       (demo_state\<lparr>recipient := ''vitalik.eth'', status := msg_unresolved_000\<rparr>,
        [ResolveName ''vitalik.eth'' (Resolved None), SetSending False], Finished)"
    by (simp add: send_000_defs demo_defs Let_def)
  from unresolved_recipient_000 [OF h1 h2 h3 h4, of demo_env] h4 run show ?thesis
    by simp
qed

text \<open>
  C3 fails for part\_001, which resolves no names: the same recipient is refused at once
  as an invalid address, with an empty trace.
\<close>

theorem unresolved_recipient_001_counterexample:
  "\<not> isAddress demo_lib ''vitalik.eth''
   \<and> sendPayment_001 demo_lib demo_env (demo_state\<lparr>recipient := ''vitalik.eth''\<rparr>) =
       (demo_state\<lparr>recipient := ''vitalik.eth'', status := msg_invalid_recipient_001\<rparr>,
        [], Finished)"
  by (simp add: send_001_defs demo_defs)

subsection \<open>The broadcast\<close>

text \<open>
  Claim C4, for part\_001 and with the wallet's answer made explicit. A session with a
  signer submits the amount \<open>0.01\<close>, which parses to \<open>10\<^sup>1\<^sup>6\<close> wei, to a recipient
  that is an address. If the broadcast resolves, the calls to \<open>signer.sendTransaction\<close>
  and \<open>response.wait\<close> in the trace are exactly one broadcast, of the amount to the
  recipient, followed by one \<open>wait(1)\<close> on its response.
\<close>

theorem one_broadcast_one_wait_001:
  assumes conn: "signer s = Some sg"
    and amt: "amount s = ''0.01''" "parseEther L ''0.01'' = Inr 10000000000000000"
    and rcp: "isAddress L (recipient s)"
    and ok: "list_all resolved (filter is_broadcast (trace_of (sendPayment_001 L E s)))"
  shows "\<exists>t resp w.
            filter (\<lambda>e. is_broadcast e \<or> is_wait e) (trace_of (sendPayment_001 L E s)) =
              [SendTransaction sg t (Resolved resp), Wait resp 1 w]
            \<and> tx_to t = recipient s \<and> tx_value t = 10000000000000000"
proof (cases rule: sendPayment_001_cases [where L=L and E=E and s=s])
  case idle
  with conn amt rcp show ?thesis by simp
next
  case (tried sg' v)
  with conn amt have sg: "sg' = sg" "v = 10000000000000000" by simp_all
  show ?thesis using ok unfolding tried(4) sg
    by (cases rule: try_001_paths [where L=L and E=E and s=s and sg=sg and v=10000000000000000])
       (auto simp: finally_send_def catch_001_def base_tx_def dest!: not_resolved_cases)
qed

text \<open>C4 at work, in the world where every call resolves.\<close>

theorem one_broadcast_one_wait_001_witness:
  "signer demo_state = Some (Signer 0)
   \<and> list_all resolved (filter is_broadcast (trace_of (sendPayment_001 demo_lib demo_env demo_state)))
   \<and> (\<exists>t resp w.
        filter (\<lambda>e. is_broadcast e \<or> is_wait e) (trace_of (sendPayment_001 demo_lib demo_env demo_state)) =
          [SendTransaction (Signer 0) t (Resolved resp), Wait resp 1 w]
        \<and> tx_to t = recipient demo_state \<and> tx_value t = 10000000000000000)"
proof -
  have run: "trace_of (sendPayment_001 demo_lib demo_env demo_state) =
     [SetSending True,
      SendTransaction (Signer 0) (base_tx demo_recipient 10000000000000000)
        (Resolved (TxResponse ''0xabc'')),
      Wait (TxResponse ''0xabc'') 1 (Resolved (Some (Receipt 1 100))),
      GetBalance demo_sender (Resolved 990000000000000000), SetSending False]"
    by (simp add: send_001_defs demo_defs base_tx_def Let_def)
  have c: "signer demo_state = Some (Signer 0)"
    by (simp add: demo_defs)
  have a: "amount demo_state = ''0.01''" "parseEther demo_lib ''0.01'' = Inr 10000000000000000"
    by (simp_all add: demo_defs)
  have r: "isAddress demo_lib (recipient demo_state)"
    by (simp add: demo_defs)
  have o: "list_all resolved (filter is_broadcast
      (trace_of (sendPayment_001 demo_lib demo_env demo_state)))"
    by (simp add: run)
  from one_broadcast_one_wait_001 [OF c a r o] c o show ?thesis
    by blast
qed

text \<open>
  C4 as it is written says nothing of the wallet's answer, and fails when the user declines:
  the one broadcast is rejected and nothing is waited for.
\<close>

theorem one_broadcast_one_wait_001_counterexample:
  "amount demo_state = ''0.01''
   \<and> isAddress demo_lib (recipient demo_state)
   \<and> parseEther demo_lib ''0.01'' = Inr 10000000000000000
   \<and> trace_of (sendPayment_001 demo_lib rejecting_env demo_state) =
       [SetSending True,
        SendTransaction (Signer 0) (base_tx demo_recipient 10000000000000000)
          (Rejected user_rejection),
        SetSending False]
   \<and> filter is_wait (trace_of (sendPayment_001 demo_lib rejecting_env demo_state)) = []"
  by (simp add: send_001_defs demo_defs base_tx_def Let_def)

text \<open>
  Claim C5, for part\_001. Let the trace hold a broadcast that was rejected, by the user
  with code 4001 or otherwise. Then the final state is the initial one except for
  \<open>status\<close> and \<open>sending\<close>: address, balance, signer, network and provider are
  unchanged, recipient and amount are not cleared, and \<open>sending\<close> is false. The
  broadcast is the only one (no retry) and nothing was waited for. The status is
  \<open>Send failed: \<close> and the text of the error, part\_001 looking at no code.
\<close>

theorem user_rejection_keeps_session_001:
  assumes mem: "SendTransaction sg t (Rejected e) \<in> set (trace_of (sendPayment_001 L E s))"
  shows "state_of (sendPayment_001 L E s) = s\<lparr>status := msg_send_failed e, sending := False\<rparr>
       \<and> filter is_broadcast (trace_of (sendPayment_001 L E s)) = [SendTransaction sg t (Rejected e)]
       \<and> filter is_wait (trace_of (sendPayment_001 L E s)) = []
       \<and> completion_of (sendPayment_001 L E s) = Finished"
proof (cases rule: sendPayment_001_cases [where L=L and E=E and s=s])
  case idle
  with mem show ?thesis by simp
next
  case (tried sg' v)
  show ?thesis using mem unfolding tried(4)
    by (cases rule: try_001_paths [where L=L and E=E and s=s and sg=sg' and v=v])
       (auto simp: finally_send_def catch_001_def dest!: not_resolved_cases)
qed

text \<open>C5 at work: the user declines in the wallet.\<close>

theorem user_rejection_keeps_session_001_witness:
  "err_code user_rejection = Some 4001
   \<and> SendTransaction (Signer 0) (base_tx demo_recipient 10000000000000000) (Rejected user_rejection)
       \<in> set (trace_of (sendPayment_001 demo_lib rejecting_env demo_state))
   \<and> state_of (sendPayment_001 demo_lib rejecting_env demo_state) =
       demo_state\<lparr>status := msg_send_failed user_rejection, sending := False\<rparr>
   \<and> filter is_wait (trace_of (sendPayment_001 demo_lib rejecting_env demo_state)) = []"
proof -
  let ?t = "base_tx demo_recipient 10000000000000000"
  have h: "err_code user_rejection = Some 4001"
    by (simp add: user_rejection_def)
  have run: "trace_of (sendPayment_001 demo_lib rejecting_env demo_state) =
       [SetSending True, SendTransaction (Signer 0) ?t (Rejected user_rejection),
        SetSending False]"
    by (simp add: send_001_defs demo_defs base_tx_def Let_def)
  have m: "SendTransaction (Signer 0) ?t (Rejected user_rejection)
      \<in> set (trace_of (sendPayment_001 demo_lib rejecting_env demo_state))"
    by (simp add: run)
  from user_rejection_keeps_session_001 [OF m] m h show ?thesis
    by simp
qed

text \<open>
  C5 fails for part\_001 in its first part: the status after a rejection with code 4001 is
  the one that the same text without the code gives, not a status of its own.
\<close>

theorem user_rejection_001_counterexample:
  "err_code user_rejection = Some 4001
   \<and> err_code other_failure \<noteq> Some 4001
   \<and> status (state_of (sendPayment_001 demo_lib rejecting_env demo_state)) =
       ''Send failed: User denied transaction signature.''
   \<and> status (state_of (sendPayment_001 demo_lib failing_env demo_state)) =
       ''Send failed: User denied transaction signature.''
   \<and> msg_user_rejected_000 = ''User rejected the transaction''"
  by (simp add: send_001_defs demo_defs base_tx_def Let_def msg_send_failed_def err_text_def
        msg_user_rejected_000_def)

text \<open>
  Claim C6 says that the fee suggestion is fetched before the broadcast and shapes the
  transaction. part\_000 means to do so at lines 223-234, but no run reaches them: in the
  world where every call resolves, the submission of 0.01 ether ends at the comparison of
  line 215, after the balance read, with no \<open>getFeeData\<close> call and no broadcast. (And
  were the lines reached, a suggestion with both fields of the pair and a priority fee of
  zero would give the gas price, \<open>0n\<close> being falsy.)
\<close>

theorem fee_suggestion_unreached:
  "sendPayment_000 demo_lib demo_env demo_state =
       (demo_state\<lparr>status := ''Send failed: balBN.lt is not a function''\<rparr>,
        [GetBalance demo_sender (Resolved 1000000000000000000), SetSending False], Finished)
   \<and> getFeeData demo_env [] = Resolved (Some demo_fees)
   \<and> maxPriorityFeePerGas zero_tip_fees = Some 0
   \<and> add_fees_000 (Some zero_tip_fees) (base_tx demo_recipient 10000000000000000) =
       (base_tx demo_recipient 10000000000000000)\<lparr>tx_gasPrice := Some 1500000000\<rparr>"
  by (simp add: send_000_defs demo_defs msg_send_failed_def err_text_def add_fees_000_def
        truthy_000_def base_tx_def)

text \<open>
  Claim C8 says that a confirmed payment refreshes the balance and clears the form.
  \<open>sendPayment\<close> of part\_001 checks the signer only (line 129; part\_000 checks both at
  line 192) and reads \<open>provider.getBalance\<close> at line 167. After the wallet's account
  list was empty and then held the sender again, the session has a signer and no
  provider; a payment from it is broadcast and confirmed, the read throws on \<open>null\<close>,
  no balance is asked for, the status reports a failed send, and balance, recipient and
  amount stay as they were.
\<close>

theorem confirmed_payment_without_provider:
  "reconnected_state_001 = demo_state\<lparr>provider := None\<rparr>
   \<and> signer reconnected_state_001 = Some (Signer 0)
   \<and> sendPayment_001 demo_lib demo_env reconnected_state_001 =
       (reconnected_state_001\<lparr>status := ''Send failed: Cannot read properties of null''\<rparr>,
        [SetSending True,
         SendTransaction (Signer 0) (base_tx demo_recipient 10000000000000000)
           (Resolved (TxResponse ''0xabc'')),
         Wait (TxResponse ''0xabc'') 1 (Resolved (Some (Receipt 1 100))),
         SetSending False], Finished)
   \<and> receipt_status (Receipt 1 100) = 1
   \<and> balance reconnected_state_001 = ''1.0''
   \<and> recipient reconnected_state_001 = demo_recipient
   \<and> amount reconnected_state_001 = ''0.01''"
proof -
  have st: "reconnected_state_001 = demo_state\<lparr>provider := None\<rparr>"
    by (simp add: reconnected_state_001_def accountsChanged_001_def resetConnection_001_def
          setupSigner_001_def signer_steps_def demo_defs Let_def)
  show ?thesis
    unfolding st
    by (simp add: send_001_defs demo_defs base_tx_def Let_def msg_send_failed_def err_text_def)
qed

text \<open>
  Claim C10, for part\_001 and with the promises' fate made explicit. Take a run in which
  \<open>setSending(true)\<close> was called. If one of its promises never settles, the run is
  suspended at it with \<open>sending\<close> still true. Otherwise it has returned, its last action
  was \<open>setSending(false)\<close>, and \<open>sending\<close> is false: this covers the confirmed
  payment, the failed receipt, every thrown error and the user's rejection.
\<close>

theorem sending_flag_reset_001:
  assumes mem: "SetSending True \<in> set (trace_of (sendPayment_001 L E s))"
  shows "if list_ex pending (trace_of (sendPayment_001 L E s))
         then completion_of (sendPayment_001 L E s) = Stuck
            \<and> sending (state_of (sendPayment_001 L E s))
         else completion_of (sendPayment_001 L E s) = Finished
            \<and> \<not> sending (state_of (sendPayment_001 L E s))
            \<and> last (trace_of (sendPayment_001 L E s)) = SetSending False"
proof (cases rule: sendPayment_001_cases [where L=L and E=E and s=s])
  case idle
  with mem show ?thesis by simp
next
  case (tried sg' v)
  show ?thesis using mem unfolding tried(4)
    by (cases rule: try_001_paths [where L=L and E=E and s=s and sg=sg' and v=v])
       (auto simp: finally_send_def catch_001_def dest!: not_resolved_cases)
qed

text \<open>C10 at work: a rejected broadcast.\<close>

theorem sending_flag_reset_001_witness:
  "SetSending True \<in> set (trace_of (sendPayment_001 demo_lib rejecting_env demo_state))
   \<and> \<not> list_ex pending (trace_of (sendPayment_001 demo_lib rejecting_env demo_state))
   \<and> completion_of (sendPayment_001 demo_lib rejecting_env demo_state) = Finished
   \<and> \<not> sending (state_of (sendPayment_001 demo_lib rejecting_env demo_state))
   \<and> last (trace_of (sendPayment_001 demo_lib rejecting_env demo_state)) = SetSending False"
proof -
  have run: "trace_of (sendPayment_001 demo_lib rejecting_env demo_state) =
       [SetSending True,
        SendTransaction (Signer 0) (base_tx demo_recipient 10000000000000000)
          (Rejected user_rejection),
        SetSending False]"
    by (simp add: send_001_defs demo_defs base_tx_def Let_def)
  then have m: "SetSending True \<in> set (trace_of (sendPayment_001 demo_lib rejecting_env demo_state))"
    by simp
  from sending_flag_reset_001 [OF m] run show ?thesis
    by simp
qed

text \<open>
  C10 as it is written fails when the confirmation never arrives: \<open>setSending(true)\<close>
  was called, the run is suspended at \<open>response.wait(1)\<close>, and \<open>sending\<close> stays true.
\<close>

theorem sending_flag_reset_001_counterexample:
  "sendPayment_001 demo_lib stalled_env demo_state =
       (demo_state\<lparr>sending := True, status := msg_sent_001 (TxResponse ''0xabc'')\<rparr>,
        [SetSending True,
         SendTransaction (Signer 0) (base_tx demo_recipient 10000000000000000)
           (Resolved (TxResponse ''0xabc'')),
         Wait (TxResponse ''0xabc'') 1 Pending], Stuck)
   \<and> SetSending True \<in> set (trace_of (sendPayment_001 demo_lib stalled_env demo_state))
   \<and> sending (state_of (sendPayment_001 demo_lib stalled_env demo_state))"
  by (simp add: send_001_defs demo_defs base_tx_def Let_def)

subsection \<open>The session\<close>

text \<open>
  Claim C7, for part\_001. Let the first network read of \<open>connectWallet\<close> resolve to a
  chain other than 8453. The \<open>provider.send\<close> requests are then: accounts and a switch
  that was not rejected; or accounts, a rejected switch and an add, with no second switch.
  The add request registers chain 8453 as \<open>Base\<close> with currency Ether (ETH, 18
  decimals), RPC URL \<^verbatim>\<open>https://mainnet.base.org\<close> and explorer
  \<^verbatim>\<open>https://basescan.org\<close>.
\<close>

theorem switch_then_add_001:
  assumes nw: "filter is_network (trace_of (connectWallet_001 L E s)) = GetNetwork (Resolved net) # rest"
    and ch: "chainId net \<noteq> BASE_CHAIN_ID"
  shows "((\<exists>r. \<not> is_rejected r \<and> filter is_send (trace_of (connectWallet_001 L E s)) =
                [Req_accounts (Resolved ()), Req_switch L r])
          \<or> (\<exists>e r. filter is_send (trace_of (connectWallet_001 L E s)) =
                [Req_accounts (Resolved ()), Req_switch L (Rejected e), Req_add L r]))
       \<and> BASE_CHAIN_ID = 8453
       \<and> Req_switch L r' = Send ''wallet_switchEthereumChain'' (ChainRef (hexValue L 8453)) r'
       \<and> Req_add L r' = Send ''wallet_addEthereumChain''
            (ChainSpec (hexValue L 8453) ''Base'' (''Ether'', ''ETH'', 18)
               [''https://mainnet.base.org''] [''https://basescan.org'']) r'"
proof (intro conjI)
  from nw have "provider s \<noteq> None"
    by (cases "provider s") (auto simp: connectWallet_001_def)
  then have run: "trace_of (connectWallet_001 L E s) = trace_of (connect_try_001 L E s)"
    by (auto simp: connectWallet_001_def trace_catch_connect)
  from connect_try_001_sends [OF nw [unfolded run] ch]
  show "(\<exists>r. \<not> is_rejected r \<and> filter is_send (trace_of (connectWallet_001 L E s)) =
                [Req_accounts (Resolved ()), Req_switch L r])
          \<or> (\<exists>e r. filter is_send (trace_of (connectWallet_001 L E s)) =
                [Req_accounts (Resolved ()), Req_switch L (Rejected e), Req_add L r])"
    unfolding run .
qed (simp_all add: BASE_CHAIN_ID_def Req_switch_def Req_add_def switch_request_def add_request_def)

text \<open>C7 at work: the wallet is on mainnet and switches when asked.\<close>

theorem switch_then_add_001_witness:
  "chainId (Network ''mainnet'' 1) \<noteq> BASE_CHAIN_ID
   \<and> trace_of (connectWallet_001 demo_lib willing_env demo_state) =
       [Req_accounts (Resolved ()), GetNetwork (Resolved (Network ''mainnet'' 1)),
        Req_switch demo_lib (Resolved ()),
        GetSigner (Resolved (Signer 0)), GetAddress (Signer 0) (Resolved demo_sender),
        GetBalance demo_sender (Resolved 1000000000000000000),
        GetNetwork (Resolved (Network ''base'' 8453))]
   \<and> Req_switch demo_lib (Resolved ()) =
        Send ''wallet_switchEthereumChain'' (ChainRef ''0x2105'') (Resolved ())"
proof -
  have h: "chainId (Network ''mainnet'' 1) \<noteq> BASE_CHAIN_ID"
    by (simp add: BASE_CHAIN_ID_def)
  have run: "trace_of (connectWallet_001 demo_lib willing_env demo_state) =
       [Req_accounts (Resolved ()), GetNetwork (Resolved (Network ''mainnet'' 1)),
        Req_switch demo_lib (Resolved ()),
        GetSigner (Resolved (Signer 0)), GetAddress (Signer 0) (Resolved demo_sender),
        GetBalance demo_sender (Resolved 1000000000000000000),
        GetNetwork (Resolved (Network ''base'' 8453))]"
    by (simp add: connect_001_defs demo_defs Let_def)
  have nw: "filter is_network (trace_of (connectWallet_001 demo_lib willing_env demo_state)) =
      GetNetwork (Resolved (Network ''mainnet'' 1)) # [GetNetwork (Resolved (Network ''base'' 8453))]"
    by (simp add: run)
  have hx: "hexValue demo_lib 8453 = ''0x2105''"
    by (simp add: demo_defs)
  from switch_then_add_001 [OF nw h, where r'="Resolved ()"] h run hx
  show ?thesis
    by simp
qed

text \<open>
  C7 as it is written fails for part\_001 in its last part: after the add request has
  resolved, the switch is not asked for again.
\<close>

theorem switch_add_retry_001_counterexample:
  "filter is_network (trace_of (connectWallet_001 demo_lib mainnet_env demo_state)) =
       [GetNetwork (Resolved (Network ''mainnet'' 1)), GetNetwork (Resolved (Network ''mainnet'' 1))]
   \<and> chainId (Network ''mainnet'' 1) \<noteq> 8453
   \<and> filter is_send (trace_of (connectWallet_001 demo_lib mainnet_env demo_state)) =
       [Req_accounts (Resolved ()), Req_switch demo_lib (Rejected unknown_chain),
        Req_add demo_lib (Resolved ())]"
  by (simp add: connect_001_defs demo_defs Let_def)

text \<open>
  Claim C9, for both variants. On an \<open>accountsChanged\<close> event with an empty list the
  handler is \<open>resetConnection\<close> and makes no call; after it the address is the empty
  string, the balance is the initial display value (\<open>0.0\<close> in part\_000, \<open>0\<close> in
  part\_001), and signer and network are \<open>null\<close>.
\<close>

theorem empty_accounts_clear_session:
  "accountsChanged_000 L E st (Some []) = (resetConnection_000 E st, [], Finished)
   \<and> address (resetConnection_000 E st) = []
   \<and> balance (resetConnection_000 E st) = ''0.0''
   \<and> signer (resetConnection_000 E st) = None
   \<and> network (resetConnection_000 E st) = None
   \<and> accountsChanged_001 L E st (Some []) = (resetConnection_001 st, [], Finished)
   \<and> address (resetConnection_001 st) = []
   \<and> balance (resetConnection_001 st) = ''0''
   \<and> signer (resetConnection_001 st) = None
   \<and> network (resetConnection_001 st) = None"
  by (simp add: accountsChanged_000_def accountsChanged_001_def resetConnection_000_def
        resetConnection_001_def Let_def)

text \<open>C9 at work on the connected session.\<close>

theorem empty_accounts_clear_session_witness:
  "state_of (accountsChanged_000 demo_lib demo_env demo_state (Some [])) =
     demo_state\<lparr>signer := None, address := [], balance := ''0.0'', network := None\<rparr>
   \<and> state_of (accountsChanged_001 demo_lib demo_env demo_state (Some [])) =
     demo_state\<lparr>provider := None, signer := None, address := [], balance := ''0'',
                 network := None\<rparr>"
  using empty_accounts_clear_session [of demo_lib demo_env demo_state]
  by (simp add: resetConnection_000_def resetConnection_001_def demo_defs Let_def)

end
